theory Spec2Isabelle
  imports Complex_Main "HOL-Library.Log_Nat"
begin

section \<open>The view layer of Ponger (\<^verbatim>\<open>src/public/js/view.js\<close>)\<close>

text \<open>
  The class \<^verbatim>\<open>PongerView\<close> is embedded as functions on an explicit world state: the
  fields of the view object, the model object it holds, and the parts of the browser it
  touches (window size, menu element, registered listeners, pending animation frames,
  the clock). Every function returns the new world together with a log of the actions
  it performed, in order: calls into the model, notifications delivered, canvas
  commands, assignments to the URL fragment, sound playback.

  The numbers that the model holds and the coordinates handed to the canvas context
  are \<^typ>\<open>real\<close>, in exact arithmetic (a quotient is only meaningful where its divisor
  is non-zero). The size of the canvas is computed as the code computes it, in double
  arithmetic, and stored as the canvas element stores it, as integers. Key codes,
  window sizes and clock readings in milliseconds are \<^typ>\<open>int\<close>.
\<close>

subsection \<open>The model object, as far as the view touches it\<close>

record ball =
  ball_x :: real
  ball_y :: real
  ball_r :: real

record bat =
  bat_x :: real
  bat_y :: real
  bat_w :: real
  bat_h :: real

text \<open>
  \<^verbatim>\<open>model.states\<close> is the enum-like object of the model; its entries are values of
  some type \<open>'v\<close> which \<^verbatim>\<open>===\<close> compares. The class \<^verbatim>\<open>PongerModel\<close> itself is not
  part of the sources, so the entries are kept as they are read: fields of an object.
\<close>

record 'v states =
  OFFLINE :: 'v
  CONNECTING :: 'v
  CONNECTION_FAILED :: 'v
  WAITING_OPPONENT_TO_CONNECT :: 'v
  WAITING_OPPONENT_TO_START :: 'v
  WAITING_PLAYER :: 'v
  OPPONENT_DISCONNECTED :: 'v

text \<open>
  The fields of the model that \<^verbatim>\<open>view.js\<close> reads. Everything else the model holds
  (velocities, key state, the peer connection) lives in the extension part of the
  record scheme. \<open>points\<close> is \<open>None\<close> when \<^verbatim>\<open>model.points\<close> is falsy.
\<close>

record 'v model =
  state :: 'v
  states :: "'v states"
  ball :: ball
  leftBat :: bat
  rightBat :: bat
  points :: "real list option"
  abstractWidth :: real
  abstractHeight :: real
  roomId :: string

subsection \<open>The methods of the model\<close>

text \<open>
  The model announces itself through events dispatched on \<^verbatim>\<open>document\<close>; dispatching
  is synchronous, so a method of the model may run listeners of the view before it
  returns. A method is therefore a function from the model to the notifications it
  dispatches, each with the model as it is at that moment, and the model it leaves.
  The methods are parameters of the embedding: \<^verbatim>\<open>model.js\<close> is not among the sources.
\<close>

datatype notification = open_room | playing_online | disconnected | collision

type_synonym ('v, 'z) reply =
  "(notification \<times> ('v, 'z) model_scheme) list \<times> ('v, 'z) model_scheme"

record ('v, 'z) model_ops =
  model_init :: "string option \<Rightarrow> string option \<Rightarrow> ('v, 'z) model_scheme \<Rightarrow> ('v, 'z) reply"
  keyDown :: "int \<Rightarrow> ('v, 'z) model_scheme \<Rightarrow> ('v, 'z) reply"
  keyUp :: "int \<Rightarrow> ('v, 'z) model_scheme \<Rightarrow> ('v, 'z) reply"
  playerStarted :: "('v, 'z) model_scheme \<Rightarrow> ('v, 'z) reply"
  updateBall :: "int \<Rightarrow> ('v, 'z) model_scheme \<Rightarrow> ('v, 'z) reply"
  updateBats :: "int \<Rightarrow> ('v, 'z) model_scheme \<Rightarrow> ('v, 'z) reply"
  detectCollision :: "bat \<Rightarrow> ('v, 'z) model_scheme \<Rightarrow> ('v, 'z) reply"
  detectPoint :: "('v, 'z) model_scheme \<Rightarrow> ('v, 'z) reply"

text \<open>A call of the view into the model, with its arguments (\<open>None\<close> is \<^verbatim>\<open>undefined\<close>).\<close>

datatype call =
    Init "string option" "string option"
  | KeyDown int
  | KeyUp int
  | PlayerStarted
  | UpdateBall int
  | UpdateBats int
  | DetectCollision bat
  | DetectPoint

fun apply_call :: "('v, 'z) model_ops \<Rightarrow> call \<Rightarrow> ('v, 'z) model_scheme \<Rightarrow> ('v, 'z) reply" where
  "apply_call ops (Init mode hash) m = model_init ops mode hash m"
| "apply_call ops (KeyDown k) m = keyDown ops k m"
| "apply_call ops (KeyUp k) m = keyUp ops k m"
| "apply_call ops PlayerStarted m = playerStarted ops m"
| "apply_call ops (UpdateBall dt) m = updateBall ops dt m"
| "apply_call ops (UpdateBats dt) m = updateBats ops dt m"
| "apply_call ops (DetectCollision b) m = detectCollision ops b m"
| "apply_call ops DetectPoint m = detectPoint ops m"

subsection \<open>The world of the view and the log of its actions\<close>

text \<open>
  What is written on the canvas context. \<open>ctx_font s\<close> stands for the font string
  \<^verbatim>\<open>`${s}px "Lucida Console", Monaco, monospace`\<close>; the text of \<^verbatim>\<open>fillText\<close> is a number,
  \<^verbatim>\<open>undefined\<close> or a string; its last argument is the optional maximal width. An
  angle is a number of radians, \<open>Times_PI a\<close> for \<^verbatim>\<open>Math.PI * a\<close>.
\<close>

datatype shown = Number real | Undefined | Str string

datatype angle = Radians real | Times_PI real

datatype draw =
    ctx_clearRect real real real real
  | ctx_beginPath
  | ctx_strokeStyle string
  | ctx_setLineDash "real list"
  | ctx_lineWidth real
  | ctx_moveTo real real
  | ctx_lineTo real real
  | ctx_stroke
  | ctx_fillStyle string
  | ctx_font real
  | ctx_textBaseline string
  | ctx_textAlign string
  | ctx_fillText shown real real "real option"
  | ctx_arc real real real angle angle
  | ctx_fill
  | ctx_fillRect real real real real

datatype action =
    Call call
  | Emitted notification
  | Play string
  | Set_hash string
  | Ctx draw
  | Focus_first_button
  | Blur_button
  | Request_frame

text \<open>
  A listener registered with \<^verbatim>\<open>addEventListener\<close>, named by the event it listens to;
  each of them is one closure of \<^verbatim>\<open>view.js\<close>. \<open>On_click\<close> stands for the click
  listeners that \<^verbatim>\<open>init\<close> puts on the buttons of the menu, one on each.
\<close>

datatype listener =
    On_resize
  | On_click
  | On_keydown
  | On_keyup
  | On_keypress
  | On_blur
  | On_notification notification

record menu =
  hidden :: bool
  buttons :: nat

text \<open>
  The fields of the view object (\<open>model\<close> to \<open>canvas_height\<close>) and of the browser
  around it. \<open>menu\<close> is \<open>None\<close> when the document has no element \<^verbatim>\<open>#menu\<close>.
  \<open>frame_requests\<close> counts the callbacks pending in \<^verbatim>\<open>requestAnimationFrame\<close>.
  \<^verbatim>\<open>new Date()\<close> reads \<open>clock\<close> at position \<open>ticks\<close> and moves one position on.
  \<open>prevTime\<close> is unset in JavaScript until \<^verbatim>\<open>start\<close> assigns it; \<^verbatim>\<open>loop\<close>, its only
  reader, first runs after that assignment.
\<close>

record ('v, 'z) world =
  model :: "('v, 'z) model_scheme"
  sound :: string
  started :: bool
  playing :: bool
  prevTime :: int
  canvas_width :: real
  canvas_height :: real
  innerWidth :: int
  innerHeight :: int
  menu :: "menu option"
  listeners :: "listener list"
  frame_requests :: nat
  clock :: "nat \<Rightarrow> int"
  ticks :: nat

type_synonym ('v, 'z) act = "('v, 'z) world \<Rightarrow> ('v, 'z) world \<times> action list"

text \<open>Statements in sequence: each runs in the world the one before left, the logs are joined.\<close>

definition skip :: "('v, 'z) act" where
  "skip w = (w, [])"

definition seq :: "('v, 'z) act \<Rightarrow> ('v, 'z) act \<Rightarrow> ('v, 'z) act" where
  "seq f g w = (case f w of (w1, l1) \<Rightarrow> case g w1 of (w2, l2) \<Rightarrow> (w2, l1 @ l2))"

fun block :: "('v, 'z) act list \<Rightarrow> ('v, 'z) act" where
  "block [] = skip"
| "block (f # fs) = seq f (block fs)"

text \<open>\<^verbatim>\<open>if (b) f else g\<close> and \<^verbatim>\<open>if (b) f\<close>, the condition read when the statement is reached.\<close>

definition ifelse ::
  "(('v, 'z) world \<Rightarrow> bool) \<Rightarrow> ('v, 'z) act \<Rightarrow> ('v, 'z) act \<Rightarrow> ('v, 'z) act" where
  "ifelse b f g w = (if b w then f w else g w)"

definition cond :: "(('v, 'z) world \<Rightarrow> bool) \<Rightarrow> ('v, 'z) act \<Rightarrow> ('v, 'z) act" where
  "cond b f w = (if b w then f w else (w, []))"

text \<open>A value is read when the statement is reached, and used in what follows.\<close>

definition reading :: "(('v, 'z) world \<Rightarrow> 'a) \<Rightarrow> ('a \<Rightarrow> ('v, 'z) act) \<Rightarrow> ('v, 'z) act" where
  "reading g f w = f (g w) w"

definition does :: "(('v, 'z) world \<Rightarrow> action list) \<Rightarrow> ('v, 'z) act" where
  "does l w = (w, l w)"

definition assign :: "(('v, 'z) world \<Rightarrow> ('v, 'z) world) \<Rightarrow> ('v, 'z) act" where
  "assign f w = (f w, [])"

definition addEventListener :: "listener \<Rightarrow> ('v, 'z) act" where
  "addEventListener l = assign (\<lambda>w. w\<lparr>listeners := listeners w @ [l]\<rparr>)"

definition new_Date :: "('v, 'z) world \<Rightarrow> int" where
  "new_Date w = clock w (ticks w)"

definition tick :: "('v, 'z) act" where
  "tick = assign (\<lambda>w. w\<lparr>ticks := Suc (ticks w)\<rparr>)"

subsection \<open>Notifications of the model\<close>

text \<open>
  The four listeners of \<^verbatim>\<open>handleModelEvents()\<close>, lines 100-116, and the dispatch of a
  notification to those of them that are registered at that moment.
\<close>

fun on_notification :: "notification \<Rightarrow> ('v, 'z) act" where
  "on_notification open_room = does (\<lambda>w. [Set_hash (roomId (model w))])"
| "on_notification playing_online = assign (\<lambda>w. w\<lparr>playing := True\<rparr>)"
| "on_notification disconnected = assign (\<lambda>w. w\<lparr>playing := False\<rparr>)"
| "on_notification collision = does (\<lambda>w. [Play (sound w)])"

definition dispatchEvent :: "notification \<Rightarrow> ('v, 'z) act" where
  "dispatchEvent n =
     reading listeners (\<lambda>ls.
       seq (does (\<lambda>_. [Emitted n]))
         (block (map (\<lambda>_. on_notification n) (filter (\<lambda>l. l = On_notification n) ls))))"

text \<open>
  A call into the model: the notifications dispatched during the call reach the
  listeners while the model is as the method has it at that moment; then the method
  returns and the model is as it left it.
\<close>

definition deliver :: "notification \<times> ('v, 'z) model_scheme \<Rightarrow> ('v, 'z) act" where
  "deliver nm = seq (assign (\<lambda>w. w\<lparr>model := snd nm\<rparr>)) (dispatchEvent (fst nm))"

definition call_model :: "('v, 'z) model_ops \<Rightarrow> call \<Rightarrow> ('v, 'z) act" where
  "call_model ops c =
     reading (\<lambda>w. apply_call ops c (model w)) (\<lambda>(ns, m').
       block [does (\<lambda>_. [Call c]), block (map deliver ns), assign (\<lambda>w. w\<lparr>model := m'\<rparr>)])"

subsection \<open>Drawing\<close>

text \<open>\<^verbatim>\<open>drawLines()\<close>, lines 163-172.\<close>

definition drawLines :: "('v, 'z) world \<Rightarrow> draw list" where
  "drawLines w =
     [ctx_beginPath,
      ctx_strokeStyle ''rgba(255, 255, 255, .1)'',
      ctx_setLineDash [canvas_width w * 0.04, canvas_width w * 0.047],
      ctx_lineWidth (canvas_width w * 0.015),
      ctx_moveTo (canvas_width w / 2) 0,
      ctx_lineTo (canvas_width w / 2) (canvas_height w),
      ctx_stroke,
      ctx_setLineDash []]"

text \<open>\<^verbatim>\<open>points[i]\<close>: \<^verbatim>\<open>undefined\<close> beyond the end of the array.\<close>

definition entry :: "real list \<Rightarrow> nat \<Rightarrow> shown" where
  "entry ps i = (if i < length ps then Number (ps ! i) else Undefined)"

text \<open>\<^verbatim>\<open>drawPoints()\<close>, lines 175-194.\<close>

definition drawPoints :: "('v, 'z) world \<Rightarrow> draw list" where
  "drawPoints w =
     [ctx_fillStyle ''rgba(255, 255, 255, .3)'',
      ctx_font (canvas_width w / 10),
      ctx_textBaseline ''top'',
      ctx_textAlign ''right'',
      ctx_fillText
        (case points (model w) of Some ps \<Rightarrow> entry ps 0 | None \<Rightarrow> Number 0)
        ((canvas_width w / 2) - (canvas_width w * 0.02))
        (canvas_width w * 0.02) None,
      ctx_fillStyle ''rgba(255, 255, 255, .3)'',
      ctx_textAlign ''left'',
      ctx_fillText
        (case points (model w) of Some ps \<Rightarrow> entry ps 1 | None \<Rightarrow> Number 0)
        ((canvas_width w / 2) + (canvas_width w * 0.02))
        (canvas_width w * 0.02) None]"

text \<open>\<^verbatim>\<open>drawBall()\<close>, lines 197-206.\<close>

definition drawBall :: "('v, 'z) world \<Rightarrow> draw list" where
  "drawBall w =
     [ctx_beginPath,
      ctx_fillStyle ''yellow'',
      ctx_arc
        (ball_x (ball (model w)) / abstractWidth (model w) * canvas_width w)
        (ball_y (ball (model w)) / abstractHeight (model w) * canvas_height w)
        (canvas_width w * ball_r (ball (model w)) / abstractWidth (model w))
        (Radians 0) (Times_PI 2),
      ctx_fill]"

text \<open>\<^verbatim>\<open>drawBat(bat)\<close>, lines 216-224.\<close>

definition drawBat :: "bat \<Rightarrow> ('v, 'z) world \<Rightarrow> draw list" where
  "drawBat b w =
     [ctx_fillStyle ''white'',
      ctx_fillRect
        ((bat_x b - (bat_w b / 2)) / abstractWidth (model w) * canvas_width w)
        ((bat_y b - (bat_h b / 2)) / abstractHeight (model w) * canvas_height w)
        (bat_w b / abstractWidth (model w) * canvas_width w)
        (bat_h b / abstractHeight (model w) * canvas_height w)]"

text \<open>
  \<^verbatim>\<open>getInfoText()\<close>, lines 253-263: the cases of the \<^verbatim>\<open>switch\<close> are compared with
  \<^verbatim>\<open>model.state\<close> in the order they are written.
\<close>

definition getInfoText :: "('v, 'z) world \<Rightarrow> string" where
  \<open>getInfoText w =
     (if state (model w) = CONNECTING (states (model w)) then ''Connecting...''
      else if state (model w) = CONNECTION_FAILED (states (model w)) then ''Connection failed.''
      else if state (model w) = WAITING_OPPONENT_TO_CONNECT (states (model w))
        then ''Share the URL with your opponent to connect!''
      else if state (model w) = WAITING_OPPONENT_TO_START (states (model w))
        then ''Waiting opponent to start.''
      else if state (model w) = OPPONENT_DISCONNECTED (states (model w))
        then ''Opponent disconnected.''
      else ''Press "SPACE" to '' @ (if started w then ''continue'' else ''start'') @ ''!'')\<close>

text \<open>\<^verbatim>\<open>drawPausedInfo()\<close>, lines 227-247.\<close>

definition drawPausedInfo :: "('v, 'z) world \<Rightarrow> draw list" where
  "drawPausedInfo w =
     [ctx_fillStyle ''rgba(255, 255, 255, .6)'',
      ctx_fillRect
        ((canvas_width w / 2) - (canvas_width w * 0.35))
        ((canvas_height w / 2) - (canvas_height w * 0.1))
        (canvas_width w * 0.7)
        (canvas_height w * 0.2),
      ctx_fillStyle ''#2e3f73'',
      ctx_font (canvas_width w / 25),
      ctx_textBaseline ''middle'',
      ctx_textAlign ''center'',
      ctx_fillText (Str (getInfoText w))
        (canvas_width w / 2)
        (canvas_height w / 2)
        (Some (canvas_width w * 0.65))]"

subsection \<open>Double arithmetic and the size of a canvas element\<close>

text \<open>
  \<^verbatim>\<open>resizeCanvas()\<close> computes with the numbers of JavaScript, IEEE 754 doubles, and
  assigns the results to \<^verbatim>\<open>width\<close> and \<^verbatim>\<open>height\<close> of an \<^verbatim>\<open>HTMLCanvasElement\<close>, which
  hold integers. A number is a finite double, an infinity or \<^verbatim>\<open>NaN\<close>. The sign of a
  zero is not kept: the operands of \<^verbatim>\<open>resizeCanvas()\<close> have none, and its only division
  by a computed value, by \<^verbatim>\<open>fieldRatio\<close>, happens where
  \<^verbatim>\<open>containerSize.w < containerSize.h * fieldRatio\<close>, which no zero ratio satisfies.
\<close>

datatype number = Finite real | PlusInfinity | MinusInfinity | NaN

text \<open>
  Rounding to binary64, to the nearest double with ties to the even significand:
  \<open>exponent x\<close> is the binary exponent of \<open>x\<close> (the integer part of its logarithm to base 2),
  not below that of the subnormal doubles, so that the doubles around \<open>x\<close> are the integer
  multiples of \<open>two_to (exponent x - 52)\<close>. \<open>double_of\<close> rounds without a largest exponent;
  \<open>round_double\<close> gives an infinity where that passes the largest double.
\<close>

definition two_to :: "int \<Rightarrow> real" where
  "two_to k = (if 0 \<le> k then 2 ^ nat k else 1 / 2 ^ nat (- k))"

definition exponent :: "real \<Rightarrow> int" where
  "exponent x =
     max (- 1022)
       (if 1 \<le> \<bar>x\<bar> then int (floorlog 2 (nat \<lfloor>\<bar>x\<bar>\<rfloor>)) - 1
        else - int (floorlog 2 (nat (\<lceil>1 / \<bar>x\<bar>\<rceil> - 1))))"

definition nearest_even :: "real \<Rightarrow> int" where
  "nearest_even y =
     (if y - of_int \<lfloor>y\<rfloor> < 1 / 2 then \<lfloor>y\<rfloor>
      else if 1 / 2 < y - of_int \<lfloor>y\<rfloor> then \<lfloor>y\<rfloor> + 1
      else if even \<lfloor>y\<rfloor> then \<lfloor>y\<rfloor> else \<lfloor>y\<rfloor> + 1)"

definition double_of :: "real \<Rightarrow> real" where
  "double_of x =
     (if x = 0 then 0
      else of_int (nearest_even (x / two_to (exponent x - 52))) * two_to (exponent x - 52))"

definition round_double :: "real \<Rightarrow> number" where
  "round_double x =
     (if 2 ^ 1024 \<le> double_of x then PlusInfinity
      else if double_of x \<le> - (2 ^ 1024) then MinusInfinity
      else Finite (double_of x))"

text \<open>The operators \<^verbatim>\<open>/\<close>, \<^verbatim>\<open>*\<close>, \<^verbatim>\<open>-\<close> and \<^verbatim>\<open><\<close> on numbers.\<close>

fun js_div :: "number \<Rightarrow> number \<Rightarrow> number" where
  "js_div (Finite x) (Finite y) =
     (if y = 0 then (if x = 0 then NaN else if 0 < x then PlusInfinity else MinusInfinity)
      else round_double (x / y))"
| "js_div (Finite x) PlusInfinity = Finite 0"
| "js_div (Finite x) MinusInfinity = Finite 0"
| "js_div PlusInfinity (Finite y) = (if 0 \<le> y then PlusInfinity else MinusInfinity)"
| "js_div MinusInfinity (Finite y) = (if 0 \<le> y then MinusInfinity else PlusInfinity)"
| "js_div _ _ = NaN"

fun js_mul :: "number \<Rightarrow> number \<Rightarrow> number" where
  "js_mul (Finite x) (Finite y) = round_double (x * y)"
| "js_mul (Finite x) PlusInfinity =
     (if x = 0 then NaN else if 0 < x then PlusInfinity else MinusInfinity)"
| "js_mul (Finite x) MinusInfinity =
     (if x = 0 then NaN else if 0 < x then MinusInfinity else PlusInfinity)"
| "js_mul PlusInfinity (Finite y) =
     (if y = 0 then NaN else if 0 < y then PlusInfinity else MinusInfinity)"
| "js_mul MinusInfinity (Finite y) =
     (if y = 0 then NaN else if 0 < y then MinusInfinity else PlusInfinity)"
| "js_mul PlusInfinity PlusInfinity = PlusInfinity"
| "js_mul PlusInfinity MinusInfinity = MinusInfinity"
| "js_mul MinusInfinity PlusInfinity = MinusInfinity"
| "js_mul MinusInfinity MinusInfinity = PlusInfinity"
| "js_mul _ _ = NaN"

fun js_sub :: "number \<Rightarrow> number \<Rightarrow> number" where
  "js_sub (Finite x) (Finite y) = round_double (x - y)"
| "js_sub (Finite x) PlusInfinity = MinusInfinity"
| "js_sub (Finite x) MinusInfinity = PlusInfinity"
| "js_sub PlusInfinity (Finite y) = PlusInfinity"
| "js_sub MinusInfinity (Finite y) = MinusInfinity"
| "js_sub PlusInfinity MinusInfinity = PlusInfinity"
| "js_sub MinusInfinity PlusInfinity = MinusInfinity"
| "js_sub _ _ = NaN"

fun js_less :: "number \<Rightarrow> number \<Rightarrow> bool" where
  "js_less (Finite x) (Finite y) = (x < y)"
| "js_less (Finite x) PlusInfinity = True"
| "js_less MinusInfinity (Finite y) = True"
| "js_less MinusInfinity PlusInfinity = True"
| "js_less _ _ = False"

text \<open>
  An assignment to \<^verbatim>\<open>canvas.width\<close> or \<^verbatim>\<open>canvas.height\<close> converts the number to an
  \<^verbatim>\<open>unsigned long\<close>: \<^verbatim>\<open>NaN\<close> and the infinities become 0, any other number loses its
  fraction and is taken modulo \<open>2 ^ 32\<close>. The attribute keeps a value up to
  \<open>2 ^ 31 - 1\<close> and falls back to its default, 300 for the width and 150 for the
  height, on a larger one.
\<close>

fun to_unsigned_long :: "number \<Rightarrow> int" where
  "to_unsigned_long (Finite x) = (if 0 \<le> x then \<lfloor>x\<rfloor> else \<lceil>x\<rceil>) mod 2 ^ 32"
| "to_unsigned_long _ = 0"

definition canvas_size :: "int \<Rightarrow> number \<Rightarrow> real" where
  "canvas_size preset v =
     of_int (if to_unsigned_long v \<le> 2147483647 then to_unsigned_long v else preset)"

subsection \<open>Resizing the canvas\<close>

text \<open>
  \<^verbatim>\<open>resizeCanvas()\<close>, lines 119-130. \<^verbatim>\<open>window.innerWidth\<close> and \<^verbatim>\<open>window.innerHeight\<close> are
  integers; the sizes of the field are the doubles that the model holds.
\<close>

definition resizeCanvas :: "('v, 'z) act" where
  "resizeCanvas =
     assign (\<lambda>w.
       let containerSize_w = Finite (of_int (innerWidth w));
           containerSize_h = Finite (of_int (innerHeight w));
           fieldRatio = js_div (Finite (abstractWidth (model w))) (Finite (abstractHeight (model w)))
       in if js_less containerSize_w (js_mul containerSize_h fieldRatio)
          then w\<lparr>canvas_width := canvas_size 300 (js_sub containerSize_w (Finite 10)),
                 canvas_height := canvas_size 150 (js_div (js_sub containerSize_w (Finite 10)) fieldRatio)\<rparr>
          else w\<lparr>canvas_width := canvas_size 300 (js_mul (js_sub containerSize_h (Finite 10)) fieldRatio),
                 canvas_height := canvas_size 150 (js_sub containerSize_h (Finite 10))\<rparr>)"

subsection \<open>The main loop\<close>

text \<open>
  \<^verbatim>\<open>loop()\<close>, lines 133-160. \<open>playing\<close> is read twice, before the calls into the model
  and after them; \<^verbatim>\<open>model.state\<close> is read after \<^verbatim>\<open>updateBall\<close> has returned, and each
  bat when it is passed to \<^verbatim>\<open>detectCollision\<close>.
\<close>

definition requestAnimationFrame :: "('v, 'z) act" where
  "requestAnimationFrame =
     seq (assign (\<lambda>w. w\<lparr>frame_requests := Suc (frame_requests w)\<rparr>))
       (does (\<lambda>_. [Request_frame]))"

definition paint :: "('v, 'z) world \<Rightarrow> draw list" where
  "paint w =
     ctx_clearRect 0 0 (canvas_width w) (canvas_height w)
     # drawLines w @ drawPoints w
     @ drawBat (leftBat (model w)) w @ drawBat (rightBat (model w)) w
     @ drawBall w"

definition loop :: "('v, 'z) model_ops \<Rightarrow> ('v, 'z) act" where
  "loop ops =
     block
      [requestAnimationFrame,
       cond playing
         (reading (\<lambda>w. new_Date w - prevTime w) (\<lambda>dt.
            block
             [tick,
              call_model ops (UpdateBall dt),
              cond (\<lambda>w. state (model w) = OFFLINE (states (model w)))
                (block
                  [call_model ops (UpdateBats dt),
                   reading (\<lambda>w. leftBat (model w)) (\<lambda>b. call_model ops (DetectCollision b)),
                   reading (\<lambda>w. rightBat (model w)) (\<lambda>b. call_model ops (DetectCollision b)),
                   call_model ops DetectPoint])])),
       does (\<lambda>w. map Ctx (paint w)),
       cond (\<lambda>w. \<not> playing w) (does (\<lambda>w. map Ctx (drawPausedInfo w))),
       assign (\<lambda>w. w\<lparr>prevTime := new_Date w\<rparr>),
       tick]"

subsection \<open>Starting a game\<close>

text \<open>The \<^verbatim>\<open>keypress\<close> listener of \<^verbatim>\<open>start\<close>, lines 71-86.\<close>

definition on_keypress :: "('v, 'z) model_ops \<Rightarrow> int \<Rightarrow> ('v, 'z) act" where
  "on_keypress ops which =
     cond (\<lambda>_. which = 32)
       (ifelse (\<lambda>w. state (model w) = OFFLINE (states (model w)))
          (block [assign (\<lambda>w. w\<lparr>started := True\<rparr>),
                  assign (\<lambda>w. w\<lparr>playing := (\<not> playing w)\<rparr>)])
          (ifelse (\<lambda>w. state (model w) = WAITING_PLAYER (states (model w)))
             (call_model ops PlayerStarted)
             skip))"

text \<open>The \<^verbatim>\<open>blur\<close> listener of \<^verbatim>\<open>start\<close>, lines 89-91.\<close>

definition on_blur :: "('v, 'z) act" where
  "on_blur = assign (\<lambda>w. w\<lparr>playing := False\<rparr>)"

text \<open>\<^verbatim>\<open>handleModelEvents()\<close>, lines 100-116: the registrations.\<close>

definition handleModelEvents :: "('v, 'z) act" where
  "handleModelEvents =
     block
      [addEventListener (On_notification open_room),
       addEventListener (On_notification playing_online),
       addEventListener (On_notification disconnected),
       addEventListener (On_notification collision)]"

text \<open>\<^verbatim>\<open>start(mode, hash)\<close>, lines 60-97.\<close>

definition start :: "('v, 'z) model_ops \<Rightarrow> string option \<Rightarrow> string option \<Rightarrow> ('v, 'z) act" where
  "start ops mode hash =
     block
      [call_model ops (Init mode hash),
       assign (\<lambda>w. w\<lparr>prevTime := new_Date w\<rparr>),
       tick,
       addEventListener On_keydown,
       addEventListener On_keyup,
       addEventListener On_keypress,
       cond (\<lambda>w. state (model w) = OFFLINE (states (model w)))
         (addEventListener On_blur),
       handleModelEvents,
       loop ops]"

subsection \<open>Initialising the view\<close>

text \<open>
  The click listener of a menu button, lines 44-50. \<open>btn\<close> is the value of the button
  that \<^verbatim>\<open>closest('button')\<close> finds, \<open>None\<close> when it finds none.
\<close>

definition set_hidden :: "bool \<Rightarrow> ('v, 'z) act" where
  "set_hidden h = assign (\<lambda>w. w\<lparr>menu := map_option (\<lambda>mn. mn\<lparr>hidden := h\<rparr>) (menu w)\<rparr>)"

definition on_click :: "('v, 'z) model_ops \<Rightarrow> string option \<Rightarrow> ('v, 'z) act" where
  "on_click ops btn =
     block
      [set_hidden True,
       cond (\<lambda>_. btn \<noteq> None) (does (\<lambda>_. [Blur_button])),
       start ops btn None]"

text \<open>
  \<^verbatim>\<open>init()\<close>, lines 16-53. \<open>location_hash\<close> is \<^verbatim>\<open>window.location.hash\<close> as the page was
  loaded; \<^verbatim>\<open>substr(1)\<close> drops its first character.
\<close>

definition init :: "('v, 'z) model_ops \<Rightarrow> string \<Rightarrow> ('v, 'z) act" where
  "init ops location_hash =
     block
      [call_model ops (Init None None),
       assign (\<lambda>w. w\<lparr>sound := ''./sound.wav''\<rparr>),
       assign (\<lambda>w. w\<lparr>started := False\<rparr>),
       assign (\<lambda>w. w\<lparr>playing := False\<rparr>),
       addEventListener On_resize,
       resizeCanvas,
       ifelse (\<lambda>_. location_hash \<noteq> [] \<and> location_hash \<noteq> ''#'')
         (block [set_hidden True,
                 start ops (Some ''online'') (Some (drop 1 location_hash))])
         (cond (\<lambda>w. menu w \<noteq> None)
            (block
              [set_hidden False,
               cond (\<lambda>w. case menu w of None \<Rightarrow> False | Some mn \<Rightarrow> 0 < buttons mn)
                 (block [does (\<lambda>_. [Focus_first_button]),
                         addEventListener On_click])]))]"

subsection \<open>Events\<close>

text \<open>
  What happens to a view: the window is resized to a new inner size, a menu button is
  clicked, a key goes down, up or is pressed (with \<^verbatim>\<open>event.which\<close>), the window loses
  focus, the browser runs the pending animation frame callbacks, the model dispatches a
  notification outside of any call by the view (from a callback of its peer
  connection), or the model changes on its own in such a callback.
\<close>

datatype ('v, 'z) event =
    Resize int int
  | Click "string option"
  | Keydown int
  | Keyup int
  | Keypress int
  | Blur
  | Animation_frame
  | Notification notification
  | Model_changed "('v, 'z) model_scheme"

fun handle :: "('v, 'z) model_ops \<Rightarrow> ('v, 'z) event \<Rightarrow> listener \<Rightarrow> ('v, 'z) act" where
  "handle ops ev On_resize = (case ev of Resize a b \<Rightarrow> resizeCanvas | _ \<Rightarrow> skip)"
| "handle ops ev On_click = (case ev of Click btn \<Rightarrow> on_click ops btn | _ \<Rightarrow> skip)"
| "handle ops ev On_keydown =
     (case ev of Keydown which \<Rightarrow> call_model ops (KeyDown which) | _ \<Rightarrow> skip)"
| "handle ops ev On_keyup =
     (case ev of Keyup which \<Rightarrow> call_model ops (KeyUp which) | _ \<Rightarrow> skip)"
| "handle ops ev On_keypress =
     (case ev of Keypress which \<Rightarrow> on_keypress ops which | _ \<Rightarrow> skip)"
| "handle ops ev On_blur = (case ev of Blur \<Rightarrow> on_blur | _ \<Rightarrow> skip)"
| "handle ops ev (On_notification n) = skip"

text \<open>An event runs the listeners that are registered when it is dispatched, in order.\<close>

definition fire :: "('v, 'z) model_ops \<Rightarrow> ('v, 'z) event \<Rightarrow> ('v, 'z) act" where
  "fire ops ev = reading listeners (\<lambda>ls. block (map (handle ops ev) ls))"

fun step :: "('v, 'z) model_ops \<Rightarrow> ('v, 'z) event \<Rightarrow> ('v, 'z) act" where
  "step ops (Resize a b) =
     seq (assign (\<lambda>w. w\<lparr>innerWidth := a, innerHeight := b\<rparr>)) (fire ops (Resize a b))"
| "step ops Animation_frame =
     reading frame_requests (\<lambda>n.
       seq (assign (\<lambda>w. w\<lparr>frame_requests := 0\<rparr>)) (block (replicate n (loop ops))))"
| "step ops (Notification n) = dispatchEvent n"
| "step ops (Model_changed m) = assign (\<lambda>w. w\<lparr>model := m\<rparr>)"
| "step ops ev = fire ops ev"

fun run :: "('v, 'z) model_ops \<Rightarrow> ('v, 'z) event list \<Rightarrow> ('v, 'z) act" where
  "run ops [] = skip"
| "run ops (ev # evs) = seq (step ops ev) (run ops evs)"

subsection \<open>Reading the log\<close>

text \<open>The calls into the model that a log records, in order.\<close>

fun calls :: "action list \<Rightarrow> call list" where
  "calls [] = []"
| "calls (a # l) = (case a of Call c \<Rightarrow> c # calls l | _ \<Rightarrow> calls l)"

text \<open>How often a listener is registered.\<close>

definition registered :: "listener \<Rightarrow> ('v, 'z) world \<Rightarrow> nat" where
  "registered l w = length (filter (\<lambda>x. x = l) (listeners w))"

text \<open>Two worlds that differ at most in the model and in \<open>playing\<close>.\<close>

definition same_but_model_playing :: "('v, 'z) world \<Rightarrow> ('v, 'z) world \<Rightarrow> bool" where
  "same_but_model_playing w w' \<longleftrightarrow> w' = w\<lparr>model := model w', playing := playing w'\<rparr>"

subsection \<open>Statements that keep an invariant\<close>

text \<open>
  \<open>act_ok I G Q f\<close>: from a world where \<open>I\<close> holds, if the log that \<open>f\<close> writes passes
  \<open>G\<close>, then \<open>I\<close> holds afterwards and the log satisfies \<open>Q\<close>. \<open>Q\<close> is to hold of the
  empty log and of two logs joined, \<open>G\<close> of the two parts of a log it holds of.
\<close>

definition act_ok ::
  "(('v, 'z) world \<Rightarrow> bool) \<Rightarrow> (action list \<Rightarrow> bool) \<Rightarrow> (action list \<Rightarrow> bool)
     \<Rightarrow> ('v, 'z) act \<Rightarrow> bool" where
  "act_ok I G Q f \<longleftrightarrow> (\<forall>w. I w \<longrightarrow> G (snd (f w)) \<longrightarrow> I (fst (f w)) \<and> Q (snd (f w)))"

definition joins :: "(action list \<Rightarrow> bool) \<Rightarrow> bool" where
  "joins Q \<longleftrightarrow> Q [] \<and> (\<forall>a b. Q a \<longrightarrow> Q b \<longrightarrow> Q (a @ b))"

definition parts :: "(action list \<Rightarrow> bool) \<Rightarrow> bool" where
  "parts G \<longleftrightarrow> (\<forall>a b. G (a @ b) \<longrightarrow> G a \<and> G b)"

text \<open>
  The sounds and the collisions of a log: what is left of it when only the sound
  playbacks and the \<^verbatim>\<open>collision\<close> notifications are kept.
\<close>

fun is_play :: "action \<Rightarrow> bool" where
  "is_play (Play s) = True"
| "is_play _ = False"

definition sounds_and_collisions :: "action list \<Rightarrow> action list" where
  "sounds_and_collisions l = filter (\<lambda>a. is_play a \<or> a = Emitted collision) l"

text \<open>Events other than a click on a menu button.\<close>

fun no_click :: "('v, 'z) event \<Rightarrow> bool" where
  "no_click (Click btn) = False"
| "no_click _ = True"

text \<open>
  \<open>cue s l\<close>: in the log \<open>l\<close>, every \<^verbatim>\<open>collision\<close> notification is followed by one
  playback of the sound \<open>s\<close>, before the next notification of a collision, and there
  is no other playback. \<open>tuned s w\<close>: the view holds the sound \<open>s\<close> and has one
  listener for \<^verbatim>\<open>collision\<close>.
\<close>

definition cue :: "string \<Rightarrow> action list \<Rightarrow> bool" where
  "cue s l \<longleftrightarrow>
     sounds_and_collisions l
       = concat (map (\<lambda>_. [Emitted collision, Play s]) (filter (\<lambda>a. a = Emitted collision) l))"

definition tuned :: "string \<Rightarrow> ('v, 'z) world \<Rightarrow> bool" where
  "tuned s w \<longleftrightarrow> sound w = s \<and> registered (On_notification collision) w = 1"

subsection \<open>A paused view\<close>

text \<open>
  \<open>silent l\<close>: no \<^verbatim>\<open>playing_online\<close> notification is dispatched in the log \<open>l\<close>.
  \<open>no_updates l\<close>: the log has no call of \<^verbatim>\<open>updateBall\<close> or \<^verbatim>\<open>updateBats\<close>.
  \<open>paused w\<close>: \<open>playing\<close> is false, and the keypress listener is registered at most
  once. \<open>online_run ops evs w\<close>: none of the events \<open>evs\<close>, run from \<open>w\<close>, is a click
  on the menu, and \<^verbatim>\<open>model.state\<close> is not \<open>OFFLINE\<close> when any of them arrives.
\<close>

definition silent :: "action list \<Rightarrow> bool" where
  "silent l \<longleftrightarrow> Emitted playing_online \<notin> set l"

fun is_update :: "call \<Rightarrow> bool" where
  "is_update (UpdateBall dt) = True"
| "is_update (UpdateBats dt) = True"
| "is_update _ = False"

definition no_updates :: "action list \<Rightarrow> bool" where
  "no_updates l \<longleftrightarrow> \<not> list_ex is_update (calls l)"

definition paused :: "('v, 'z) world \<Rightarrow> bool" where
  "paused w \<longleftrightarrow> \<not> playing w \<and> registered On_keypress w \<le> 1"

fun is_keypress :: "('v, 'z) event \<Rightarrow> bool" where
  "is_keypress (Keypress k) = True"
| "is_keypress _ = False"

fun online_run :: "('v, 'z) model_ops \<Rightarrow> ('v, 'z) event list \<Rightarrow> ('v, 'z) world \<Rightarrow> bool" where
  "online_run ops [] w = True"
| "online_run ops (ev # evs) w =
     (no_click ev \<and> state (model w) \<noteq> OFFLINE (states (model w))
      \<and> online_run ops evs (fst (step ops ev w)))"

subsection \<open>Replaying the calls\<close>

text \<open>
  \<open>replay ops cs m\<close>: the model that the methods leave when the calls \<open>cs\<close> are made on
  the model \<open>m\<close>, one after the other. \<open>replays ops f\<close>: the model after the statement
  \<open>f\<close> is the model before it with the calls of its log replayed, so that \<open>f\<close> changes the
  model through its methods only. \<open>view_event\<close>: an event other than a change of the
  model on its own.
\<close>

fun replay :: "('v, 'z) model_ops \<Rightarrow> call list \<Rightarrow> ('v, 'z) model_scheme \<Rightarrow> ('v, 'z) model_scheme" where
  "replay ops [] m = m"
| "replay ops (c # cs) m = replay ops cs (snd (apply_call ops c m))"

definition replays :: "('v, 'z) model_ops \<Rightarrow> ('v, 'z) act \<Rightarrow> bool" where
  "replays ops f \<longleftrightarrow> (\<forall>w. model (fst (f w)) = replay ops (calls (snd (f w))) (model w))"

fun view_event :: "('v, 'z) event \<Rightarrow> bool" where
  "view_event (Model_changed m) = False"
| "view_event _ = True"

text \<open>
  The calls that forward the input, \<^verbatim>\<open>keyDown\<close>, \<^verbatim>\<open>keyUp\<close> and \<^verbatim>\<open>playerStarted\<close>, and
  the events of the keyboard.
\<close>

fun forwarded :: "call \<Rightarrow> bool" where
  "forwarded (KeyDown k) = True"
| "forwarded (KeyUp k) = True"
| "forwarded PlayerStarted = True"
| "forwarded _ = False"

fun key_event :: "('v, 'z) event \<Rightarrow> bool" where
  "key_event (Keydown k) = True"
| "key_event (Keyup k) = True"
| "key_event (Keypress k) = True"
| "key_event _ = False"

subsection \<open>A started game\<close>

text \<open>
  \<open>session w\<close>: the listeners of one call of \<^verbatim>\<open>start()\<close> are registered, each once,
  and one loop is running. \<open>kept w w'\<close>: the fields that neither the loop nor a start
  assigns are in \<open>w'\<close> as they are in \<open>w\<close>.
\<close>

definition session :: "('v, 'z) world \<Rightarrow> bool" where
  "session w \<longleftrightarrow>
     registered On_keydown w = 1 \<and> registered On_keyup w = 1 \<and> registered On_keypress w = 1
     \<and> registered (On_notification open_room) w = 1
     \<and> registered (On_notification playing_online) w = 1
     \<and> registered (On_notification disconnected) w = 1
     \<and> registered (On_notification collision) w = 1
     \<and> frame_requests w = 1"

definition kept :: "('v, 'z) world \<Rightarrow> ('v, 'z) world \<Rightarrow> bool" where
  "kept w w' \<longleftrightarrow>
     sound w' = sound w \<and> started w' = started w \<and> canvas_width w' = canvas_width w
     \<and> canvas_height w' = canvas_height w \<and> innerWidth w' = innerWidth w
     \<and> innerHeight w' = innerHeight w \<and> menu w' = menu w \<and> clock w' = clock w"

subsection \<open>Two runs of the view\<close>

text \<open>
  \<open>same_view m1 m2\<close>: the two models agree on \<^verbatim>\<open>state\<close>, \<^verbatim>\<open>states\<close>, \<^verbatim>\<open>ball\<close>,
  \<^verbatim>\<open>leftBat\<close>, \<^verbatim>\<open>rightBat\<close>, \<^verbatim>\<open>points\<close>, \<^verbatim>\<open>abstractWidth\<close> and \<^verbatim>\<open>abstractHeight\<close>.
  \<open>rendering l\<close>: the canvas commands of the log \<open>l\<close>, in order. \<open>except_hash l\<close>: the
  log without the assignments to the URL fragment.
\<close>

definition same_view :: "('v, 'z) model_scheme \<Rightarrow> ('v, 'z) model_scheme \<Rightarrow> bool" where
  "same_view m1 m2 \<longleftrightarrow>
     state m1 = state m2 \<and> states m1 = states m2 \<and> ball m1 = ball m2
     \<and> leftBat m1 = leftBat m2 \<and> rightBat m1 = rightBat m2 \<and> points m1 = points m2
     \<and> abstractWidth m1 = abstractWidth m2 \<and> abstractHeight m1 = abstractHeight m2"

fun rendering :: "action list \<Rightarrow> draw list" where
  "rendering [] = []"
| "rendering (a # l) = (case a of Ctx d \<Rightarrow> d # rendering l | _ \<Rightarrow> rendering l)"

fun is_set_hash :: "action \<Rightarrow> bool" where
  "is_set_hash (Set_hash s) = True"
| "is_set_hash _ = False"

definition except_hash :: "action list \<Rightarrow> action list" where
  "except_hash l = filter (\<lambda>a. \<not> is_set_hash a) l"

text \<open>
  Two runs are compared under a relation \<open>R\<close> between their models. \<open>within_view R\<close>:
  models that \<open>R\<close> relates agree on the eight fields. \<open>compatible R ops1 ops2\<close>: on
  related models, the methods dispatch the same notifications and leave related
  models, also at the moment of each notification. \<open>alike R w1 w2\<close>: the models of the
  two worlds are related, and the worlds are the same otherwise. \<open>rel_event R\<close>: the
  same event in both runs, or changes of the model to related models.
  \<open>rel_ok R keep f g\<close>: from alike worlds, \<open>f\<close> and \<open>g\<close> lead to alike worlds and
  write logs with the same actions among those that \<open>keep\<close> selects. \<open>hash_ok R keep\<close>:
  \<open>keep\<close> selects no assignment to the URL fragment, or related models have the same
  \<^verbatim>\<open>roomId\<close>.
\<close>

definition within_view ::
  "(('v, 'z) model_scheme \<Rightarrow> ('v, 'z) model_scheme \<Rightarrow> bool) \<Rightarrow> bool" where
  "within_view R \<longleftrightarrow> (\<forall>m1 m2. R m1 m2 \<longrightarrow> same_view m1 m2)"

definition rel_reply ::
  "(('v, 'z) model_scheme \<Rightarrow> ('v, 'z) model_scheme \<Rightarrow> bool)
     \<Rightarrow> ('v, 'z) reply \<Rightarrow> ('v, 'z) reply \<Rightarrow> bool" where
  "rel_reply R r1 r2 \<longleftrightarrow>
     list_all2 (\<lambda>a b. fst a = fst b \<and> R (snd a) (snd b)) (fst r1) (fst r2)
     \<and> R (snd r1) (snd r2)"

definition compatible ::
  "(('v, 'z) model_scheme \<Rightarrow> ('v, 'z) model_scheme \<Rightarrow> bool)
     \<Rightarrow> ('v, 'z) model_ops \<Rightarrow> ('v, 'z) model_ops \<Rightarrow> bool" where
  "compatible R ops1 ops2 \<longleftrightarrow>
     (\<forall>c m1 m2. R m1 m2 \<longrightarrow> rel_reply R (apply_call ops1 c m1) (apply_call ops2 c m2))"

definition alike ::
  "(('v, 'z) model_scheme \<Rightarrow> ('v, 'z) model_scheme \<Rightarrow> bool)
     \<Rightarrow> ('v, 'z) world \<Rightarrow> ('v, 'z) world \<Rightarrow> bool" where
  "alike R w1 w2 \<longleftrightarrow> R (model w1) (model w2) \<and> w2 = w1\<lparr>model := model w2\<rparr>"

definition rel_event ::
  "(('v, 'z) model_scheme \<Rightarrow> ('v, 'z) model_scheme \<Rightarrow> bool)
     \<Rightarrow> ('v, 'z) event \<Rightarrow> ('v, 'z) event \<Rightarrow> bool" where
  "rel_event R ev1 ev2 =
     (case ev1 of
        Model_changed m1 \<Rightarrow> (case ev2 of Model_changed m2 \<Rightarrow> R m1 m2 | _ \<Rightarrow> False)
      | _ \<Rightarrow> (case ev2 of Model_changed m2 \<Rightarrow> False | _ \<Rightarrow> ev1 = ev2))"

definition rel_ok ::
  "(('v, 'z) model_scheme \<Rightarrow> ('v, 'z) model_scheme \<Rightarrow> bool) \<Rightarrow> (action \<Rightarrow> bool)
     \<Rightarrow> ('v, 'z) act \<Rightarrow> ('v, 'z) act \<Rightarrow> bool" where
  "rel_ok R keep f g \<longleftrightarrow>
     (\<forall>w1 w2. alike R w1 w2 \<longrightarrow>
        alike R (fst (f w1)) (fst (g w2))
        \<and> filter keep (snd (f w1)) = filter keep (snd (g w2)))"

definition hash_ok ::
  "(('v, 'z) model_scheme \<Rightarrow> ('v, 'z) model_scheme \<Rightarrow> bool) \<Rightarrow> (action \<Rightarrow> bool) \<Rightarrow> bool" where
  "hash_ok R keep \<longleftrightarrow>
     (\<forall>s. \<not> keep (Set_hash s)) \<or> (\<forall>m1 m2. R m1 m2 \<longrightarrow> roomId m1 = roomId m2)"

subsection \<open>A sample page\<close>

text \<open>
  Concrete values on which the theorems below are instantiated: an enum with seven
  distinct entries, a court of 800 by 600 with the session in state \<open>s\<close>, and the
  world of a page as the browser has loaded it, before \<^verbatim>\<open>view.init()\<close> runs.
\<close>

definition std_states :: "nat states" where
  "std_states =
     \<lparr>OFFLINE = 0, CONNECTING = 1, CONNECTION_FAILED = 2,
      WAITING_OPPONENT_TO_CONNECT = 3, WAITING_OPPONENT_TO_START = 4,
      WAITING_PLAYER = 5, OPPONENT_DISCONNECTED = 6\<rparr>"

definition court :: "nat \<Rightarrow> string \<Rightarrow> nat model" where
  "court s rid =
     \<lparr>state = s, states = std_states,
      ball = \<lparr>ball_x = 400, ball_y = 300, ball_r = 10\<rparr>,
      leftBat = \<lparr>bat_x = 20, bat_y = 300, bat_w = 10, bat_h = 100\<rparr>,
      rightBat = \<lparr>bat_x = 780, bat_y = 300, bat_w = 10, bat_h = 100\<rparr>,
      points = Some [0, 0],
      abstractWidth = 800, abstractHeight = 600,
      roomId = rid\<rparr>"

definition page :: "nat model \<Rightarrow> int \<Rightarrow> int \<Rightarrow> (nat, unit) world" where
  "page m iw ih =
     \<lparr>model = m, sound = [], started = False, playing = False, prevTime = 0,
      canvas_width = 300, canvas_height = 150,
      innerWidth = iw, innerHeight = ih,
      menu = Some \<lparr>hidden = False, buttons = 3\<rparr>,
      listeners = [], frame_requests = 0,
      clock = (\<lambda>n. 1000 + 16 * int n), ticks = 0\<rparr>"

text \<open>
  A small model for the examples (the repository's own is not among the sources): it
  follows the session states of the specification, moves the right bat up when the
  key 38 goes down, moves the ball with the time, and reports every collision test as
  a hit.
\<close>

definition toy_init :: "string option \<Rightarrow> string option \<Rightarrow> nat model \<Rightarrow> (nat, unit) reply" where
  "toy_init mode hash m =
     (case mode of
        None \<Rightarrow> ([], m)
      | Some md \<Rightarrow>
          if md = ''online''
          then (case hash of
                  None \<Rightarrow> ([(open_room, m\<lparr>state := 3, roomId := ''r1''\<rparr>)],
                           m\<lparr>state := 3, roomId := ''r1''\<rparr>)
                | Some h \<Rightarrow> ([], m\<lparr>state := 1, roomId := h\<rparr>))
          else ([], m\<lparr>state := 0\<rparr>))"

definition toy_model :: "(nat, unit) model_ops" where
  "toy_model =
     \<lparr>model_init = toy_init,
      keyDown = (\<lambda>k m. ([],
        if k = 38 then m\<lparr>rightBat := (rightBat m)\<lparr>bat_y := bat_y (rightBat m) - 10\<rparr>\<rparr> else m)),
      keyUp = (\<lambda>k m. ([], m)),
      playerStarted = (\<lambda>m. ([(playing_online, m)], m)),
      updateBall = (\<lambda>dt m. ([], m\<lparr>ball := (ball m)\<lparr>ball_x := ball_x (ball m) + real_of_int dt\<rparr>\<rparr>)),
      updateBats = (\<lambda>dt m. ([], m)),
      detectCollision = (\<lambda>b m. ([(collision, m)], m)),
      detectPoint = (\<lambda>m. ([], m))\<rparr>"

text \<open>
  The page after \<^verbatim>\<open>view.init()\<close> with an empty fragment, a click on the menu button
  \<^verbatim>\<open>twoplayer\<close> and one press of the space bar: an offline game that is playing.
\<close>

definition game_on :: "(nat, unit) world" where
  "game_on =
     fst (run toy_model [Click (Some ''twoplayer''), Keypress 32]
       (fst (init toy_model [] (page (court 0 []) 798 600))))"

text \<open>The page after \<^verbatim>\<open>view.init()\<close> with the fragment \<^verbatim>\<open>#abc\<close>: a guest who is connecting.\<close>

definition guest :: "(nat, unit) world" where
  "guest = fst (init toy_model ''#abc'' (page (court 0 []) 798 600))"

text \<open>The page after \<^verbatim>\<open>view.init()\<close> with an empty fragment: the menu is open, no game is started.\<close>

definition lobby :: "(nat, unit) world" where
  "lobby = fst (init toy_model [] (page (court 0 []) 798 600))"

section \<open>Properties\<close>

lemmas act_defs = seq_def skip_def cond_def ifelse_def reading_def does_def assign_def
  tick_def new_Date_def
  addEventListener_def requestAnimationFrame_def set_hidden_def

lemmas view_defs = init_def start_def on_click_def handleModelEvents_def loop_def
  on_keypress_def on_blur_def call_model_def deliver_def dispatchEvent_def
  fire_def paint_def drawLines_def drawPoints_def drawBat_def drawBall_def drawPausedInfo_def
  getInfoText_def entry_def

lemmas sample_defs = page_def court_def std_states_def toy_model_def toy_init_def

lemmas double_defs = double_of_def exponent_def two_to_def nearest_even_def round_double_def
  canvas_size_def compute_floorlog

lemma resizeCanvas_sample:
  assumes "innerWidth w = 798" and "innerHeight w = 600"
    and "abstractWidth (model w) = 800" and "abstractHeight (model w) = 600"
  shows "resizeCanvas w = (w\<lparr>canvas_width := 788, canvas_height := 591\<rparr>, [])"
  by (simp add: resizeCanvas_def assign_def assms double_defs)

lemma game_on_eval:
  "game_on =
    \<lparr>model = court 0 [], sound = ''./sound.wav'', started = True, playing = True,
     prevTime = 1016, canvas_width = 788, canvas_height = 591,
     innerWidth = 798, innerHeight = 600,
     menu = Some \<lparr>hidden = True, buttons = 3\<rparr>,
     listeners = [On_resize, On_click, On_keydown, On_keyup, On_keypress, On_blur,
       On_notification open_room, On_notification playing_online,
       On_notification disconnected, On_notification collision],
     frame_requests = 1, clock = (\<lambda>n. 1000 + 16 * int n), ticks = 2\<rparr>"
  by (simp add: game_on_def act_defs view_defs sample_defs resizeCanvas_sample)

lemma guest_eval:
  "guest =
    \<lparr>model = court 1 ''abc'', sound = ''./sound.wav'', started = False, playing = False,
     prevTime = 1016, canvas_width = 788, canvas_height = 591,
     innerWidth = 798, innerHeight = 600,
     menu = Some \<lparr>hidden = True, buttons = 3\<rparr>,
     listeners = [On_resize, On_keydown, On_keyup, On_keypress,
       On_notification open_room, On_notification playing_online,
       On_notification disconnected, On_notification collision],
     frame_requests = 1, clock = (\<lambda>n. 1000 + 16 * int n), ticks = 2\<rparr>"
  by (simp add: guest_def act_defs view_defs sample_defs resizeCanvas_sample)

lemma lobby_eval:
  "lobby =
    \<lparr>model = court 0 [], sound = ''./sound.wav'', started = False, playing = False,
     prevTime = 0, canvas_width = 788, canvas_height = 591,
     innerWidth = 798, innerHeight = 600,
     menu = Some \<lparr>hidden = False, buttons = 3\<rparr>,
     listeners = [On_resize, On_click],
     frame_requests = 0, clock = (\<lambda>n. 1000 + 16 * int n), ticks = 0\<rparr>"
  by (simp add: lobby_def act_defs view_defs sample_defs resizeCanvas_sample)

subsection \<open>Sequencing\<close>

lemma seq_apply:
  "seq f g w = (fst (g (fst (f w))), snd (f w) @ snd (g (fst (f w))))"
  by (simp add: seq_def split: prod.splits)

lemma block_Cons_apply:
  "block (f # fs) w = (fst (block fs (fst (f w))), snd (f w) @ snd (block fs (fst (f w))))"
  by (simp add: seq_apply)

subsection \<open>Notifications and calls\<close>

lemma calls_append: "calls (xs @ ys) = calls xs @ calls ys"
  by (induction xs) (simp_all split: action.splits)

lemma calls_Ctx [simp]: "calls (map Ctx ds) = []"
  by (induction ds) simp_all

lemma block_replicate_does:
  "block (replicate k (does g)) w = (w, concat (replicate k (g w)))"
  by (induction k) (simp_all add: seq_apply skip_def does_def)

lemma block_replicate_assign:
  assumes "\<And>v. h (h v) = h v"
  shows "block (replicate k (assign h)) w = (if k = 0 then w else h w, [])"
proof (induction k arbitrary: w)
  case 0
  show ?case by (simp add: skip_def)
next
  case (Suc k)
  have "assign h w = (h w, [])" by (simp add: assign_def)
  then show ?case using assms by (simp add: seq_apply Suc)
qed

lemma dispatchEvent_world:
  "fst (dispatchEvent n w) =
     (if registered (On_notification n) w = 0 then w
      else case n of playing_online \<Rightarrow> w\<lparr>playing := True\<rparr>
         | disconnected \<Rightarrow> w\<lparr>playing := False\<rparr>
         | _ \<Rightarrow> w)"
  by (cases n)
     (simp_all add: dispatchEvent_def reading_def seq_apply does_def map_replicate_const
        registered_def block_replicate_does block_replicate_assign)

lemma dispatchEvent_log:
  "snd (dispatchEvent n w) =
     Emitted n #
     (case n of open_room \<Rightarrow> replicate (registered (On_notification n) w) (Set_hash (roomId (model w)))
       | collision \<Rightarrow> replicate (registered (On_notification n) w) (Play (sound w))
       | _ \<Rightarrow> [])"
  by (cases n)
     (simp_all add: dispatchEvent_def reading_def seq_apply does_def map_replicate_const
        registered_def block_replicate_does block_replicate_assign)

lemma deliver_world:
  "fst (deliver nm w) = fst (dispatchEvent (fst nm) (w\<lparr>model := snd nm\<rparr>))"
  by (simp add: deliver_def seq_apply assign_def)

lemma deliver_log:
  "snd (deliver nm w) = snd (dispatchEvent (fst nm) (w\<lparr>model := snd nm\<rparr>))"
  by (simp add: deliver_def seq_apply assign_def)

lemma same_refl: "same_but_model_playing w w"
  by (simp add: same_but_model_playing_def)

lemma same_trans:
  "same_but_model_playing a b \<Longrightarrow> same_but_model_playing b c \<Longrightarrow> same_but_model_playing a c"
  unfolding same_but_model_playing_def
  by (metis (no_types, lifting) world.surjective world.update_convs(1,4) world.select_convs)

lemma dispatchEvent_same: "same_but_model_playing w (fst (dispatchEvent n w))"
  by (cases n) (simp_all add: dispatchEvent_world same_but_model_playing_def)

lemma dispatchEvent_calls: "calls (snd (dispatchEvent n w)) = []"
proof -
  have "calls (replicate k (Set_hash s)) = []" "calls (replicate k (Play s)) = []" for k s
    by (induction k) simp_all
  then show ?thesis by (cases n) (simp_all add: dispatchEvent_log)
qed

lemma deliver_same: "same_but_model_playing w (fst (deliver nm w))"
proof -
  have "same_but_model_playing w (w\<lparr>model := snd nm\<rparr>)"
    by (simp add: same_but_model_playing_def)
  then show ?thesis
    unfolding deliver_world by (rule same_trans) (rule dispatchEvent_same)
qed

lemma deliver_calls: "calls (snd (deliver nm w)) = []"
  by (simp add: deliver_log dispatchEvent_calls)

lemma deliveries_same: "same_but_model_playing w (fst (block (map deliver ns) w))"
proof (induction ns arbitrary: w)
  case Nil
  show ?case by (simp add: skip_def same_refl)
next
  case (Cons nm ns)
  show ?case
    unfolding list.map block_Cons_apply fst_conv
    by (rule same_trans [OF deliver_same Cons])
qed

lemma deliveries_calls: "calls (snd (block (map deliver ns) w)) = []"
  by (induction ns arbitrary: w) (simp_all add: skip_def seq_apply calls_append deliver_calls)

lemma call_model_world:
  "fst (call_model ops c w) =
     (fst (block (map deliver (fst (apply_call ops c (model w)))) w))
       \<lparr>model := snd (apply_call ops c (model w))\<rparr>"
  by (simp add: call_model_def reading_def seq_apply does_def assign_def skip_def
      split: prod.splits)

lemma call_model_log:
  "snd (call_model ops c w) =
     Call c # snd (block (map deliver (fst (apply_call ops c (model w)))) w)"
  by (simp add: call_model_def reading_def seq_apply does_def assign_def skip_def
      split: prod.splits)

lemma call_model_model [simp]:
  "model (fst (call_model ops c w)) = snd (apply_call ops c (model w))"
  by (simp add: call_model_world)

lemma call_model_calls [simp]: "calls (snd (call_model ops c w)) = [c]"
  by (simp add: call_model_log deliveries_calls)

lemma call_model_same: "same_but_model_playing w (fst (call_model ops c w))"
proof -
  have "same_but_model_playing v (v\<lparr>model := m\<rparr>)" for v :: "('a, 'b) world" and m
    by (simp add: same_but_model_playing_def)
  from same_trans [OF deliveries_same this] show ?thesis
    by (simp add: call_model_world)
qed

lemma same_fields:
  assumes "same_but_model_playing w w'"
  shows "sound w' = sound w" "started w' = started w" "prevTime w' = prevTime w"
    "canvas_width w' = canvas_width w" "canvas_height w' = canvas_height w"
    "innerWidth w' = innerWidth w" "innerHeight w' = innerHeight w"
    "menu w' = menu w" "listeners w' = listeners w"
    "frame_requests w' = frame_requests w" "clock w' = clock w" "ticks w' = ticks w"
  using assms unfolding same_but_model_playing_def
  by (metis world.select_convs world.surjective world.update_convs(1,4))+

lemmas call_model_fields [simp] = same_fields [OF call_model_same]

subsection \<open>Events and their listeners\<close>

lemma registered_update [simp]:
  "registered l (w\<lparr>model := m\<rparr>) = registered l w"
  "registered l (w\<lparr>playing := p\<rparr>) = registered l w"
  "registered l (w\<lparr>started := b\<rparr>) = registered l w"
  by (simp_all add: registered_def)

lemma registered_same:
  "same_but_model_playing w w' \<Longrightarrow> registered l w' = registered l w"
  by (simp add: registered_def same_fields)

lemma block_map_select:
  assumes "\<And>l. h l = (if l = l0 then f else skip)"
  shows "block (map h ls) w = block (replicate (length (filter (\<lambda>x. x = l0) ls)) f) w"
proof (induction ls arbitrary: w)
  case Nil
  show ?case by simp
next
  case (Cons l ls)
  have "h l = (if l = l0 then f else skip)" by (rule assms)
  then show ?case by (cases "l = l0") (simp_all add: seq_apply skip_def Cons)
qed

lemma handle_Keypress:
  "handle ops (Keypress k) l = (if l = On_keypress then on_keypress ops k else skip)"
  by (cases l) simp_all

lemma handle_Blur: "handle ops Blur l = (if l = On_blur then on_blur else skip)"
  by (cases l) simp_all

lemma fire_Keypress:
  "fire ops (Keypress k) w = block (replicate (registered On_keypress w) (on_keypress ops k)) w"
  unfolding fire_def reading_def registered_def by (rule block_map_select) (rule handle_Keypress)

lemma fire_Blur: "fire ops Blur w = block (replicate (registered On_blur w) on_blur) w"
  unfolding fire_def reading_def registered_def by (rule block_map_select) (rule handle_Blur)

subsection \<open>Rules for invariants\<close>

lemma ok_skip: "joins Q \<Longrightarrow> act_ok I G Q skip"
  by (simp add: act_ok_def joins_def skip_def)

lemma ok_seq:
  assumes "joins Q" and "parts G" and "act_ok I G Q f" and "act_ok I G Q g"
  shows "act_ok I G Q (seq f g)"
  unfolding act_ok_def
proof (intro allI impI)
  fix w
  assume I: "I w" and G: "G (snd (seq f g w))"
  from G have G': "G (snd (f w) @ snd (g (fst (f w))))" by (simp add: seq_apply)
  with \<open>parts G\<close> have "G (snd (f w))" and Gg: "G (snd (g (fst (f w))))"
    unfolding parts_def by blast+
  with I \<open>act_ok I G Q f\<close> have f: "I (fst (f w))" "Q (snd (f w))"
    unfolding act_ok_def by blast+
  with Gg \<open>act_ok I G Q g\<close> have "I (fst (g (fst (f w))))" "Q (snd (g (fst (f w))))"
    unfolding act_ok_def by blast+
  with f \<open>joins Q\<close> show "I (fst (seq f g w)) \<and> Q (snd (seq f g w))"
    by (simp add: seq_apply joins_def)
qed

lemma ok_block:
  assumes "joins Q" and "parts G" and "\<And>f. f \<in> set fs \<Longrightarrow> act_ok I G Q f"
  shows "act_ok I G Q (block fs)"
  using assms(3)
proof (induction fs)
  case Nil
  show ?case using assms(1) by (simp add: ok_skip)
next
  case (Cons f fs)
  then show ?case by (simp add: ok_seq [OF assms(1,2)])
qed

lemma ok_cond: "joins Q \<Longrightarrow> act_ok I G Q f \<Longrightarrow> act_ok I G Q (cond b f)"
  by (simp add: act_ok_def joins_def cond_def)

lemma ok_cond_never: "joins Q \<Longrightarrow> (\<And>w. I w \<Longrightarrow> \<not> b w) \<Longrightarrow> act_ok I G Q (cond b f)"
  by (simp add: act_ok_def joins_def cond_def)

lemma ok_ifelse: "act_ok I G Q f \<Longrightarrow> act_ok I G Q g \<Longrightarrow> act_ok I G Q (ifelse b f g)"
  by (simp add: act_ok_def ifelse_def)

lemma ok_reading: "(\<And>x. act_ok I G Q (f x)) \<Longrightarrow> act_ok I G Q (reading g f)"
  by (simp add: act_ok_def reading_def)

lemma ok_does: "(\<And>w. I w \<Longrightarrow> Q (l w)) \<Longrightarrow> act_ok I G Q (does l)"
  by (simp add: act_ok_def does_def)

lemma ok_assign: "joins Q \<Longrightarrow> (\<And>w. I w \<Longrightarrow> I (h w)) \<Longrightarrow> act_ok I G Q (assign h)"
  by (simp add: act_ok_def joins_def assign_def)

lemma ok_pair: "(\<And>a b. act_ok I G Q (f a b)) \<Longrightarrow> act_ok I G Q (case p of (a, b) \<Rightarrow> f a b)"
  by (cases p) simp

lemma ok_block_Nil: "joins Q \<Longrightarrow> act_ok I G Q (block [])"
  by (simp add: ok_skip)

lemma ok_block_Cons:
  "joins Q \<Longrightarrow> parts G \<Longrightarrow> act_ok I G Q f \<Longrightarrow> act_ok I G Q (block fs)
     \<Longrightarrow> act_ok I G Q (block (f # fs))"
  by (simp add: ok_seq)

lemma ok_block_map:
  "joins Q \<Longrightarrow> parts G \<Longrightarrow> (\<And>x. act_ok I G Q (h x)) \<Longrightarrow> act_ok I G Q (block (map h xs))"
  by (rule ok_block) auto

lemma ok_block_replicate:
  "joins Q \<Longrightarrow> parts G \<Longrightarrow> act_ok I G Q f \<Longrightarrow> act_ok I G Q (block (replicate n f))"
  by (rule ok_block) auto

subsection \<open>The size of the canvas\<close>



















subsection \<open>The calls of a frame\<close>

text \<open>
  C1. On an animation frame of a view with one loop running, the calls into the model
  are exactly these, in this order: while \<open>playing\<close> is true, \<^verbatim>\<open>updateBall(dt)\<close> once,
  followed by \<^verbatim>\<open>updateBats(dt)\<close>, \<^verbatim>\<open>detectCollision(leftBat)\<close>,
  \<^verbatim>\<open>detectCollision(rightBat)\<close> and \<^verbatim>\<open>detectPoint()\<close> if and only if \<^verbatim>\<open>model.state\<close> is
  \<open>OFFLINE\<close> (as the view reads it on line 140, when \<^verbatim>\<open>updateBall\<close> has returned);
  while \<open>playing\<close> is false, none. \<open>dt\<close> is the time since the end of the frame
  before, and each bat is the one the model holds when the call is made.
\<close>

theorem frame_calls:
  assumes "frame_requests w = 1"
  shows "calls (snd (step ops Animation_frame w)) =
     (let dt = new_Date w - prevTime w;
          m1 = snd (updateBall ops dt (model w));
          m2 = snd (updateBats ops dt m1);
          m3 = snd (detectCollision ops (leftBat m2) m2)
      in if playing w
         then UpdateBall dt #
           (if state m1 = OFFLINE (states m1)
            then [UpdateBats dt, DetectCollision (leftBat m2),
                  DetectCollision (rightBat m3), DetectPoint]
            else [])
         else [])"
  using assms
  by (simp add: loop_def reading_def seq_apply cond_def does_def assign_def skip_def tick_def
      requestAnimationFrame_def calls_append Let_def new_Date_def)

theorem frame_calls_witness:
  "frame_requests game_on = 1 \<and>
   calls (snd (step toy_model Animation_frame game_on)) =
     [UpdateBall 16, UpdateBats 16,
      DetectCollision \<lparr>bat_x = 20, bat_y = 300, bat_w = 10, bat_h = 100\<rparr>,
      DetectCollision \<lparr>bat_x = 780, bat_y = 300, bat_w = 10, bat_h = 100\<rparr>,
      DetectPoint]"
  using frame_calls [of game_on toy_model]
  by (simp add: game_on_eval new_Date_def sample_defs)

subsection \<open>The space bar and the loss of focus\<close>

text \<open>
  C4. In a view that has the keypress listener and the blur listener of one
  \<^verbatim>\<open>start()\<close> (an offline session), while \<^verbatim>\<open>model.state\<close> is \<open>OFFLINE\<close>: a press
  of the space bar (key code 32) negates \<open>playing\<close>, sets \<open>started\<close> to true and
  does nothing else; two presses in a row leave \<open>playing\<close> as it was; and a blur of
  the window sets \<open>playing\<close> to false and changes nothing else.
\<close>

theorem space_bar_and_blur_offline:
  assumes "state (model w) = OFFLINE (states (model w))"
    and "registered On_keypress w = 1" and "registered On_blur w = 1"
  shows "step ops (Keypress 32) w = (w\<lparr>started := True, playing := (\<not> playing w)\<rparr>, [])
       \<and> playing (fst (run ops [Keypress 32, Keypress 32] w)) = playing w
       \<and> step ops Blur w = (w\<lparr>playing := False\<rparr>, [])"
proof -
  have press: "fire ops (Keypress 32) v = (v\<lparr>started := True, playing := (\<not> playing v)\<rparr>, [])"
    if "state (model v) = OFFLINE (states (model v))" "registered On_keypress v = 1"
    for v :: "('a, 'b) world"
    using that
    by (simp add: fire_Keypress on_keypress_def cond_def ifelse_def seq_apply assign_def
        skip_def)
  have "registered On_keypress (w\<lparr>started := True, playing := (\<not> playing w)\<rparr>) = 1"
    using assms by (simp add: registered_def)
  with assms have "playing (fst (run ops [Keypress 32, Keypress 32] w)) = playing w"
    by (simp add: seq_apply skip_def press)
  moreover have "step ops Blur w = (w\<lparr>playing := False\<rparr>, [])"
    using assms by (simp add: fire_Blur seq_apply skip_def on_blur_def assign_def)
  ultimately show ?thesis using press assms by simp
qed

theorem space_bar_and_blur_offline_witness:
  "state (model game_on) = OFFLINE (states (model game_on))
   \<and> registered On_keypress game_on = 1 \<and> registered On_blur game_on = 1
   \<and> playing game_on
   \<and> step toy_model (Keypress 32) game_on = (game_on\<lparr>started := True, playing := False\<rparr>, [])
   \<and> playing (fst (run toy_model [Keypress 32, Keypress 32] game_on))
   \<and> step toy_model Blur game_on = (game_on\<lparr>playing := False\<rparr>, [])"
  using space_bar_and_blur_offline [of game_on toy_model]
  by (simp add: game_on_eval registered_def sample_defs)

text \<open>
  C5. In a view that has the keypress listener of one \<^verbatim>\<open>start()\<close>, while
  \<^verbatim>\<open>model.state\<close> is not \<open>OFFLINE\<close>: a press of the space bar is the call
  \<^verbatim>\<open>model.playerStarted()\<close>, and that call alone, when the state is \<open>WAITING_PLAYER\<close>;
  in every other state it leaves the view and the model as they are and does nothing.
\<close>

theorem space_bar_waiting_player:
  assumes "state (model w) \<noteq> OFFLINE (states (model w))"
    and "registered On_keypress w = 1"
  shows "step ops (Keypress 32) w =
           (if state (model w) = WAITING_PLAYER (states (model w))
            then call_model ops PlayerStarted w else (w, []))
       \<and> calls (snd (call_model ops PlayerStarted w)) = [PlayerStarted]"
  using assms
  by (simp add: fire_Keypress on_keypress_def cond_def ifelse_def seq_apply skip_def)

theorem space_bar_waiting_player_witness:
  "state (model (guest\<lparr>model := court 5 ''abc''\<rparr>))
     \<noteq> OFFLINE (states (model (guest\<lparr>model := court 5 ''abc''\<rparr>)))
   \<and> registered On_keypress (guest\<lparr>model := court 5 ''abc''\<rparr>) = 1
   \<and> state (model (guest\<lparr>model := court 5 ''abc''\<rparr>))
     = WAITING_PLAYER (states (model (guest\<lparr>model := court 5 ''abc''\<rparr>)))
   \<and> step toy_model (Keypress 32) (guest\<lparr>model := court 5 ''abc''\<rparr>)
     = call_model toy_model PlayerStarted (guest\<lparr>model := court 5 ''abc''\<rparr>)
   \<and> state (model guest) \<noteq> OFFLINE (states (model guest))
   \<and> state (model guest) \<noteq> WAITING_PLAYER (states (model guest))
   \<and> step toy_model (Keypress 32) guest = (guest, [])"
  using space_bar_waiting_player [of "guest\<lparr>model := court 5 ''abc''\<rparr>" toy_model]
    space_bar_waiting_player [of guest toy_model]
  by (simp add: guest_eval registered_def sample_defs)

subsection \<open>The sound of a collision\<close>

lemma joins_cue: "joins (cue s)"
  by (simp add: joins_def cue_def sounds_and_collisions_def)

lemma parts_True: "parts (\<lambda>_. True)"
  by (simp add: parts_def)

lemmas cue_rules =
  ok_skip [OF joins_cue] ok_seq [OF joins_cue parts_True]
  ok_block_Nil [OF joins_cue] ok_block_Cons [OF joins_cue parts_True]
  ok_block_map [OF joins_cue parts_True] ok_block_replicate [OF joins_cue parts_True]
  ok_cond [OF joins_cue] ok_ifelse ok_reading ok_pair ok_does ok_assign [OF joins_cue]

lemma cue_dispatchEvent: "act_ok (tuned s) (\<lambda>_. True) (cue s) (dispatchEvent n)"
  unfolding act_ok_def
proof (intro allI impI)
  fix w :: "('a, 'b) world"
  assume "tuned s w"
  then have s: "sound w = s" "registered (On_notification collision) w = 1"
    by (simp_all add: tuned_def)
  have "tuned s (fst (dispatchEvent n w))"
    using s by (cases n) (simp_all add: dispatchEvent_world tuned_def registered_def)
  moreover have "cue s (snd (dispatchEvent n w))"
    using s by (cases n) (simp_all add: dispatchEvent_log cue_def sounds_and_collisions_def)
  ultimately show "tuned s (fst (dispatchEvent n w)) \<and> cue s (snd (dispatchEvent n w))" ..
qed

lemma cue_call_model: "act_ok (tuned s) (\<lambda>_. True) (cue s) (call_model ops c)"
  unfolding call_model_def deliver_def
  by (rule cue_rules cue_dispatchEvent
      | simp add: cue_def sounds_and_collisions_def tuned_def registered_def)+

lemma cue_loop: "act_ok (tuned s) (\<lambda>_. True) (cue s) (loop ops)"
  unfolding loop_def requestAnimationFrame_def tick_def
  by (rule cue_rules cue_call_model
      | simp add: cue_def sounds_and_collisions_def tuned_def registered_def)+

lemma cue_handle:
  "no_click ev \<Longrightarrow> act_ok (tuned s) (\<lambda>_. True) (cue s) (handle ops ev l)"
  unfolding on_keypress_def on_blur_def resizeCanvas_def
  by (cases l; cases ev)
     ((rule cue_rules cue_call_model
        | simp add: on_keypress_def on_blur_def resizeCanvas_def Let_def tuned_def
            registered_def)+)

lemma cue_step:
  "no_click ev \<Longrightarrow> act_ok (tuned s) (\<lambda>_. True) (cue s) (step ops ev)"
  by (cases ev)
     ((rule cue_rules cue_loop cue_dispatchEvent cue_handle
        | simp add: fire_def tuned_def registered_def)+)

lemma cue_run:
  "list_all no_click evs \<Longrightarrow> act_ok (tuned s) (\<lambda>_. True) (cue s) (run ops evs)"
  by (induction evs) (simp_all add: cue_rules cue_step)

lemma joins_True: "joins (\<lambda>_. True)"
  by (simp add: joins_def)

lemmas keep_rules =
  ok_skip [OF joins_True] ok_seq [OF joins_True parts_True]
  ok_block_Nil [OF joins_True] ok_block_Cons [OF joins_True parts_True]
  ok_block_map [OF joins_True parts_True] ok_block_replicate [OF joins_True parts_True]
  ok_cond [OF joins_True] ok_ifelse ok_reading ok_pair ok_does ok_assign [OF joins_True]

lemma keep_call_model:
  assumes "\<And>w w'. same_but_model_playing w w' \<Longrightarrow> I w \<Longrightarrow> I w'"
  shows "act_ok I (\<lambda>_. True) (\<lambda>_. True) (call_model ops c)"
  using assms call_model_same unfolding act_ok_def by blast

lemma keep_sound_call_model:
  "act_ok (\<lambda>w. sound w = s) (\<lambda>_. True) (\<lambda>_. True) (call_model ops c)"
  by (rule keep_call_model) (simp add: same_fields)

lemma keep_sound_loop: "act_ok (\<lambda>w. sound w = s) (\<lambda>_. True) (\<lambda>_. True) (loop ops)"
  unfolding loop_def requestAnimationFrame_def tick_def
  by (rule keep_rules keep_sound_call_model | simp)+

lemma keep_sound_start:
  "act_ok (\<lambda>w. sound w = s) (\<lambda>_. True) (\<lambda>_. True) (start ops mode hash)"
  unfolding start_def handleModelEvents_def addEventListener_def tick_def
  by (rule keep_rules keep_sound_call_model keep_sound_loop | simp)+

lemma keep_sound_handle:
  "act_ok (\<lambda>w. sound w = s) (\<lambda>_. True) (\<lambda>_. True) (handle ops ev l)"
  by (cases l; cases ev)
     ((rule keep_rules keep_sound_call_model keep_sound_start
        | simp add: on_keypress_def on_blur_def resizeCanvas_def on_click_def set_hidden_def
            Let_def)+)

lemma keep_sound_dispatchEvent:
  "act_ok (\<lambda>w. sound w = s) (\<lambda>_. True) (\<lambda>_. True) (dispatchEvent n)"
  unfolding dispatchEvent_def
  by (cases n) ((rule keep_rules | simp)+)

lemma keep_sound_step:
  "act_ok (\<lambda>w. sound w = s) (\<lambda>_. True) (\<lambda>_. True) (step ops ev)"
proof (cases ev)
  case (Model_changed m)
  then show ?thesis by (simp add: keep_rules)
next
  case (Notification n)
  then show ?thesis by (simp add: keep_sound_dispatchEvent)
qed ((rule keep_rules keep_sound_loop keep_sound_handle | simp add: fire_def)+)

lemma keep_sound_run:
  "act_ok (\<lambda>w. sound w = s) (\<lambda>_. True) (\<lambda>_. True) (run ops evs)"
  by (induction evs) (simp_all add: keep_rules keep_sound_step)

lemma init_sound: "sound (fst (init ops h w)) = ''./sound.wav''"
proof -
  have "act_ok (\<lambda>w. sound w = ''./sound.wav'') (\<lambda>_. True) (\<lambda>_. True)
     (block
       [assign (\<lambda>w. w\<lparr>started := False\<rparr>),
        assign (\<lambda>w. w\<lparr>playing := False\<rparr>),
        addEventListener On_resize,
        resizeCanvas,
        ifelse (\<lambda>_. h \<noteq> [] \<and> h \<noteq> ''#'')
          (block [set_hidden True, start ops (Some ''online'') (Some (drop 1 h))])
          (cond (\<lambda>w. menu w \<noteq> None)
             (block
               [set_hidden False,
                cond (\<lambda>w. case menu w of None \<Rightarrow> False | Some mn \<Rightarrow> 0 < buttons mn)
                  (block [does (\<lambda>_. [Focus_first_button]),
                          addEventListener On_click])]))])" (is "act_ok _ _ _ ?rest")
    unfolding addEventListener_def resizeCanvas_def set_hidden_def
    by (rule keep_rules keep_sound_start | simp add: Let_def)+
  then have "sound (fst (?rest v)) = ''./sound.wav''" if "sound v = ''./sound.wav''" for v
    using that unfolding act_ok_def by blast
  then show ?thesis
    by (simp add: init_def seq_apply assign_def)
qed

text \<open>
  C9. In a view that has the \<^verbatim>\<open>collision\<close> listener of one \<^verbatim>\<open>start()\<close>, over every
  sequence of events without a click on the menu: whenever the model dispatches a
  \<^verbatim>\<open>collision\<close> notification, on its own or during a call by the view, the view
  plays its sound once, before anything else is played or another collision is
  notified, and the log has no other playback: not from another notification, not
  from the frame. The sound is the field \<^verbatim>\<open>this.sound\<close>, which no event changes and
  which \<^verbatim>\<open>init()\<close> has set to the audio \<^verbatim>\<open>./sound.wav\<close>.
\<close>

theorem collision_plays_sound:
  assumes "registered (On_notification collision) w = 1" and "list_all no_click evs"
  shows "sounds_and_collisions (snd (run ops evs w))
           = concat (map (\<lambda>_. [Emitted collision, Play (sound w)])
               (filter (\<lambda>a. a = Emitted collision) (snd (run ops evs w))))
       \<and> sound (fst (run ops evs w)) = sound w
       \<and> sound (fst (init ops h v)) = ''./sound.wav''"
proof -
  have "tuned (sound w) w" using assms by (simp add: tuned_def)
  with cue_run [OF assms(2), of "sound w" ops]
  have "cue (sound w) (snd (run ops evs w))" unfolding act_ok_def by blast
  moreover have "sound (fst (run ops evs w)) = sound w"
    using keep_sound_run [of "sound w" ops evs] unfolding act_ok_def by blast
  ultimately show ?thesis by (simp add: cue_def init_sound)
qed

theorem collision_plays_sound_witness:
  "registered (On_notification collision) game_on = 1
   \<and> list_all no_click [Keydown 38, Animation_frame :: (nat, unit) event]
   \<and> sounds_and_collisions (snd (run toy_model [Keydown 38, Animation_frame] game_on))
       = [Emitted collision, Play ''./sound.wav'', Emitted collision, Play ''./sound.wav'']"
  using collision_plays_sound [of game_on "[Keydown 38, Animation_frame]" toy_model]
  by (simp add: game_on_eval registered_def sounds_and_collisions_def act_defs view_defs
      sample_defs)

subsection \<open>Disconnection\<close>

lemma joins_no_updates: "joins no_updates"
  by (simp add: joins_def no_updates_def calls_append)

lemma parts_silent: "parts silent"
  by (simp add: parts_def silent_def)

lemmas pause_rules =
  ok_skip [OF joins_no_updates] ok_seq [OF joins_no_updates parts_silent]
  ok_block_Nil [OF joins_no_updates] ok_block_Cons [OF joins_no_updates parts_silent]
  ok_block_map [OF joins_no_updates parts_silent]
  ok_block_replicate [OF joins_no_updates parts_silent]
  ok_cond [OF joins_no_updates] ok_ifelse ok_reading ok_pair ok_does
  ok_assign [OF joins_no_updates]

lemma pause_dispatchEvent: "act_ok paused silent no_updates (dispatchEvent n)"
  unfolding act_ok_def
proof (intro allI impI)
  fix w :: "('a, 'b) world"
  assume p: "paused w" and "silent (snd (dispatchEvent n w))"
  then have "n \<noteq> playing_online"
    by (auto simp: silent_def dispatchEvent_log)
  with p have "paused (fst (dispatchEvent n w))"
    by (cases n) (simp_all add: dispatchEvent_world paused_def registered_def)
  moreover have "no_updates (snd (dispatchEvent n w))"
    by (simp add: no_updates_def dispatchEvent_calls)
  ultimately show "paused (fst (dispatchEvent n w)) \<and> no_updates (snd (dispatchEvent n w))" ..
qed

lemma pause_call_model:
  "\<not> is_update c \<Longrightarrow> act_ok paused silent no_updates (call_model ops c)"
  unfolding call_model_def deliver_def
  by (rule pause_rules pause_dispatchEvent
      | simp add: paused_def no_updates_def registered_def)+

lemma pause_loop: "act_ok paused silent no_updates (loop ops)"
  unfolding loop_def requestAnimationFrame_def tick_def
  by (rule pause_rules ok_cond_never [OF joins_no_updates]
      | simp add: paused_def no_updates_def registered_def)+

lemma pause_fire_Keypress:
  assumes "paused w" and "state (model w) \<noteq> OFFLINE (states (model w))"
    and "silent (snd (fire ops (Keypress k) w))"
  shows "paused (fst (fire ops (Keypress k) w)) \<and> no_updates (snd (fire ops (Keypress k) w))"
proof (cases "registered On_keypress w = 1 \<and> k = 32
    \<and> state (model w) = WAITING_PLAYER (states (model w))")
  case True
  then have eq: "fire ops (Keypress k) w = call_model ops PlayerStarted w"
    using assms(2)
    by (simp add: fire_Keypress on_keypress_def cond_def ifelse_def seq_apply skip_def)
  have "act_ok paused silent no_updates (call_model ops PlayerStarted)"
    by (rule pause_call_model) simp
  with assms(1,3) show ?thesis unfolding eq act_ok_def by blast
next
  case False
  have "registered On_keypress w = 0 \<or> registered On_keypress w = 1"
    using assms(1) by (auto simp: paused_def)
  with False assms(2) have "fire ops (Keypress k) w = (w, [])"
    by (auto simp: fire_Keypress on_keypress_def cond_def ifelse_def seq_apply skip_def)
  with assms(1) show ?thesis by (simp add: no_updates_def)
qed

lemma pause_handle_other:
  assumes "no_click ev" and "\<not> is_keypress ev"
  shows "act_ok paused silent no_updates (handle ops ev l)"
  using assms
  by (cases l; cases ev; simp add: on_blur_def resizeCanvas_def Let_def)
     ((rule pause_rules pause_call_model | simp add: paused_def registered_def)+)

lemma pause_step:
  assumes "no_click ev" and "paused w" and "state (model w) \<noteq> OFFLINE (states (model w))"
    and "silent (snd (step ops ev w))"
  shows "paused (fst (step ops ev w)) \<and> no_updates (snd (step ops ev w))"
proof (cases "is_keypress ev")
  case True
  then obtain k where "ev = Keypress k" by (cases ev) simp_all
  with assms show ?thesis by (simp add: pause_fire_Keypress)
next
  case False
  have "act_ok paused silent no_updates (step ops ev)"
  proof (cases ev)
    case (Keypress k)
    with False show ?thesis by simp
  next
    case (Click b)
    with assms(1) show ?thesis by simp
  next
    case (Notification n)
    then show ?thesis by (simp add: pause_dispatchEvent)
  next
    case (Model_changed m)
    have "act_ok paused silent no_updates (assign (\<lambda>w. w\<lparr>model := m\<rparr>))"
      by (rule ok_assign [OF joins_no_updates]) (simp add: paused_def registered_def)
    with Model_changed show ?thesis by simp
  qed ((rule pause_rules pause_loop pause_handle_other
        | simp add: fire_def paused_def registered_def)+)
  with assms(2,4) show ?thesis unfolding act_ok_def by blast
qed

lemma pause_run:
  assumes "online_run ops evs w" and "paused w" and "silent (snd (run ops evs w))"
  shows "paused (fst (run ops evs w)) \<and> no_updates (snd (run ops evs w))"
  using assms
proof (induction evs arbitrary: w)
  case Nil
  then show ?case by (simp add: skip_def no_updates_def)
next
  case (Cons ev evs)
  from Cons.prems(3) have s: "silent (snd (step ops ev w))"
    "silent (snd (run ops evs (fst (step ops ev w))))"
    by (simp_all add: seq_apply silent_def)
  with Cons.prems have 1: "paused (fst (step ops ev w))" "no_updates (snd (step ops ev w))"
    using pause_step [of ev w ops] by simp_all
  with Cons.prems s have "paused (fst (run ops evs (fst (step ops ev w))))
      \<and> no_updates (snd (run ops evs (fst (step ops ev w))))"
    by (intro Cons.IH) simp_all
  with 1 show ?case
    using joins_no_updates by (simp add: seq_apply joins_def)
qed

lemma no_updates_D:
  "no_updates l \<Longrightarrow> Call (UpdateBall dt) \<notin> set l \<and> Call (UpdateBats dt) \<notin> set l"
proof -
  have mem: "c \<in> set (calls l) \<longleftrightarrow> Call c \<in> set l" for c
    by (induction l) (auto split: action.splits)
  assume "no_updates l"
  then have "\<not> is_update c" if "Call c \<in> set l" for c
    using that mem [of c] by (auto simp: no_updates_def list_ex_iff)
  from this [of "UpdateBall dt"] this [of "UpdateBats dt"] show ?thesis by auto
qed

text \<open>
  C3. In a view with the listeners of one \<^verbatim>\<open>start()\<close> and one loop running: a
  \<^verbatim>\<open>disconnected\<close> notification leaves \<open>playing\<close> false. Over every sequence of
  events after it in which no menu button is clicked, \<^verbatim>\<open>model.state\<close> is not
  \<open>OFFLINE\<close> when an event arrives (the session is online) and no \<^verbatim>\<open>playing_online\<close>
  notification is dispatched, \<open>playing\<close> is false at the end and the view makes no call
  of \<^verbatim>\<open>updateBall\<close> and none of \<^verbatim>\<open>updateBats\<close>. A \<^verbatim>\<open>playing_online\<close> notification
  leaves \<open>playing\<close> true, and the animation frame after it starts with a call of
  \<^verbatim>\<open>updateBall\<close>.
\<close>

theorem disconnected_stops_updates:
  assumes "registered (On_notification disconnected) w = 1"
    and "registered (On_notification playing_online) w = 1"
    and "registered On_keypress w = 1"
    and "frame_requests w = 1"
  shows "\<not> playing (fst (step ops (Notification disconnected) w))
     \<and> (online_run ops evs (fst (step ops (Notification disconnected) w))
         \<and> silent (snd (run ops evs (fst (step ops (Notification disconnected) w))))
       \<longrightarrow> \<not> playing (fst (run ops evs (fst (step ops (Notification disconnected) w))))
         \<and> (\<forall>dt. Call (UpdateBall dt)
                \<notin> set (snd (run ops evs (fst (step ops (Notification disconnected) w))))
              \<and> Call (UpdateBats dt)
                \<notin> set (snd (run ops evs (fst (step ops (Notification disconnected) w))))))
     \<and> playing (fst (step ops (Notification playing_online) w))
     \<and> (\<exists>dt cs. calls (snd (step ops Animation_frame
            (fst (step ops (Notification playing_online) w)))) = UpdateBall dt # cs)"
proof -
  let ?d = "fst (step ops (Notification disconnected) w)"
  let ?p = "fst (step ops (Notification playing_online) w)"
  have d: "?d = w\<lparr>playing := False\<rparr>" and p: "?p = w\<lparr>playing := True\<rparr>"
    using assms by (simp_all add: dispatchEvent_world)
  have 1: "\<not> playing ?d" and 3: "playing ?p" unfolding d p by simp_all
  have "paused ?d" unfolding d using assms by (simp add: paused_def)
  then have 2: "online_run ops evs ?d \<and> silent (snd (run ops evs ?d))
       \<longrightarrow> \<not> playing (fst (run ops evs ?d))
         \<and> (\<forall>dt. Call (UpdateBall dt) \<notin> set (snd (run ops evs ?d))
              \<and> Call (UpdateBats dt) \<notin> set (snd (run ops evs ?d)))"
    using pause_run [of ops evs ?d] no_updates_D [of "snd (run ops evs ?d)"]
    by (auto simp: paused_def)
  have "frame_requests ?p = 1" "playing ?p" unfolding p using assms by simp_all
  then have 4: "\<exists>dt cs. calls (snd (step ops Animation_frame ?p)) = UpdateBall dt # cs"
    by (simp add: loop_def reading_def seq_apply cond_def does_def assign_def skip_def tick_def
        requestAnimationFrame_def calls_append)
  from 1 2 3 4 show ?thesis by blast
qed

theorem disconnected_stops_updates_witness:
  "registered (On_notification disconnected) (guest\<lparr>playing := True\<rparr>) = 1
   \<and> registered (On_notification playing_online) (guest\<lparr>playing := True\<rparr>) = 1
   \<and> registered On_keypress (guest\<lparr>playing := True\<rparr>) = 1
   \<and> frame_requests (guest\<lparr>playing := True\<rparr>) = 1
   \<and> step toy_model (Notification disconnected) (guest\<lparr>playing := True\<rparr>)
       = (guest, [Emitted disconnected])
   \<and> online_run toy_model [Keypress 32, Keydown 38, Animation_frame, Blur] guest
   \<and> silent (snd (run toy_model [Keypress 32, Keydown 38, Animation_frame, Blur] guest))
   \<and> \<not> playing (fst (run toy_model [Keypress 32, Keydown 38, Animation_frame, Blur] guest))
   \<and> calls (snd (run toy_model [Keypress 32, Keydown 38, Animation_frame, Blur] guest))
       = [KeyDown 38]
   \<and> step toy_model (Notification playing_online) guest
       = (guest\<lparr>playing := True\<rparr>, [Emitted playing_online])
   \<and> calls (snd (step toy_model Animation_frame (guest\<lparr>playing := True\<rparr>)))
       = [UpdateBall 16]"
  using disconnected_stops_updates [of "guest\<lparr>playing := True\<rparr>" toy_model
      "[Keypress 32, Keydown 38, Animation_frame, Blur]"]
  by (simp add: guest_eval registered_def silent_def act_defs view_defs sample_defs)

subsection \<open>The view and the state of the model\<close>

lemma replay_append: "replay ops (cs @ ds) m = replay ops ds (replay ops cs m)"
  by (induction cs arbitrary: m) simp_all

lemma replays_skip: "replays ops skip"
  by (simp add: replays_def skip_def)

lemma replays_seq: "replays ops f \<Longrightarrow> replays ops g \<Longrightarrow> replays ops (seq f g)"
  by (simp add: replays_def seq_apply calls_append replay_append)

lemma replays_block_Nil: "replays ops (block [])"
  by (simp add: replays_skip)

lemma replays_block_Cons:
  "replays ops f \<Longrightarrow> replays ops (block fs) \<Longrightarrow> replays ops (block (f # fs))"
  by (simp add: replays_seq)

lemma replays_block:
  "(\<And>f. f \<in> set fs \<Longrightarrow> replays ops f) \<Longrightarrow> replays ops (block fs)"
  by (induction fs) (simp_all add: replays_skip replays_seq)

lemma replays_block_map: "(\<And>x. replays ops (h x)) \<Longrightarrow> replays ops (block (map h xs))"
  by (rule replays_block) auto

lemma replays_block_replicate: "replays ops f \<Longrightarrow> replays ops (block (replicate n f))"
  by (rule replays_block) auto

lemma replays_cond: "replays ops f \<Longrightarrow> replays ops (cond b f)"
  by (simp add: replays_def cond_def)

lemma replays_ifelse: "replays ops f \<Longrightarrow> replays ops g \<Longrightarrow> replays ops (ifelse b f g)"
  by (simp add: replays_def ifelse_def)

lemma replays_reading: "(\<And>x. replays ops (f x)) \<Longrightarrow> replays ops (reading g f)"
  by (simp add: replays_def reading_def)

lemma replays_does: "(\<And>w. calls (l w) = []) \<Longrightarrow> replays ops (does l)"
  by (simp add: replays_def does_def)

lemma replays_assign: "(\<And>w. model (h w) = model w) \<Longrightarrow> replays ops (assign h)"
  by (simp add: replays_def assign_def)

lemma replays_call_model: "replays ops (call_model ops c)"
  by (simp add: replays_def)

lemma replays_dispatchEvent: "replays ops (dispatchEvent n)"
proof -
  have "model (fst (dispatchEvent n w)) = model w" for w :: "('a, 'b) world"
    by (cases n) (simp_all add: dispatchEvent_world)
  then show ?thesis by (simp add: replays_def dispatchEvent_calls)
qed

lemmas replays_rules =
  replays_skip replays_seq replays_block_Nil replays_block_Cons replays_block_map
  replays_block_replicate replays_cond replays_ifelse replays_reading replays_does
  replays_assign replays_call_model replays_dispatchEvent

lemma replays_loop: "replays ops (loop ops)"
  unfolding loop_def requestAnimationFrame_def tick_def
  by (rule replays_rules | simp)+

lemma replays_start: "replays ops (start ops mode hash)"
  unfolding start_def handleModelEvents_def addEventListener_def tick_def
  by (rule replays_rules replays_loop | simp)+

lemma replays_init: "replays ops (init ops h)"
  unfolding init_def addEventListener_def resizeCanvas_def set_hidden_def
  by (rule replays_rules replays_start | simp add: Let_def)+

lemma replays_handle: "replays ops (handle ops ev l)"
  by (cases l; cases ev;
      simp add: on_keypress_def on_blur_def resizeCanvas_def on_click_def set_hidden_def Let_def)
     ((rule replays_rules replays_start | simp)+)

lemma replays_step: "view_event ev \<Longrightarrow> replays ops (step ops ev)"
  by (cases ev; simp add: fire_def)
     ((rule replays_rules replays_loop replays_handle | simp)+)

lemma replays_run: "list_all view_event evs \<Longrightarrow> replays ops (run ops evs)"
  by (induction evs) (simp_all add: replays_rules replays_step)

subsection \<open>Initialisation\<close>

lemma deliver_playing_unheard:
  assumes "registered (On_notification playing_online) w = 0"
    and "registered (On_notification disconnected) w = 0"
  shows "playing (fst (deliver nm w)) = playing w"
  using assms by (cases "fst nm") (simp_all add: deliver_world dispatchEvent_world)

lemma deliveries_playing_unheard:
  assumes "registered (On_notification playing_online) w = 0"
    and "registered (On_notification disconnected) w = 0"
  shows "playing (fst (block (map deliver ns) w)) = playing w"
  using assms
proof (induction ns arbitrary: w)
  case Nil
  show ?case by (simp add: skip_def)
next
  case (Cons nm ns)
  have "registered l (fst (deliver nm w)) = registered l w" for l
    by (rule registered_same) (rule deliver_same)
  with Cons.prems have "playing (fst (block (map deliver ns) (fst (deliver nm w))))
      = playing (fst (deliver nm w))"
    by (intro Cons.IH) simp_all
  with Cons.prems show ?case
    by (simp add: seq_apply deliver_playing_unheard)
qed

lemma call_model_playing_unheard:
  assumes "registered (On_notification playing_online) w = 0"
    and "registered (On_notification disconnected) w = 0"
  shows "playing (fst (call_model ops c w)) = playing w"
  using assms by (simp add: call_model_world deliveries_playing_unheard)

lemma fst_seq: "fst (seq f g w) = fst (g (fst (f w)))"
  by (simp add: seq_apply)

lemma snd_seq: "snd (seq f g w) = snd (f w) @ snd (g (fst (f w)))"
  by (simp add: seq_apply)

lemma proj_skip: "fst (skip w) = w" "snd (skip w) = []"
  by (simp_all add: skip_def)

lemma proj_cond:
  "fst (cond b f w) = (if b w then fst (f w) else w)"
  "snd (cond b f w) = (if b w then snd (f w) else [])"
  by (simp_all add: cond_def)

lemma proj_ifelse:
  "fst (ifelse b f g w) = (if b w then fst (f w) else fst (g w))"
  "snd (ifelse b f g w) = (if b w then snd (f w) else snd (g w))"
  by (simp_all add: ifelse_def)

lemma proj_does: "fst (does l w) = w" "snd (does l w) = l w"
  by (simp_all add: does_def)

lemma proj_assign: "fst (assign h w) = h w" "snd (assign h w) = []"
  by (simp_all add: assign_def)

lemmas proj = fst_seq snd_seq proj_skip proj_cond proj_ifelse proj_does proj_assign reading_def

lemma keep_kept_call_model:
  "act_ok (kept w) (\<lambda>_. True) (\<lambda>_. True) (call_model ops c)"
  by (rule keep_call_model) (simp add: kept_def same_fields)

lemma keep_kept_loop: "act_ok (kept w) (\<lambda>_. True) (\<lambda>_. True) (loop ops)"
  unfolding loop_def requestAnimationFrame_def tick_def
  by (rule keep_rules keep_kept_call_model | simp add: kept_def)+

lemma loop_listeners [simp]: "listeners (fst (loop ops w)) = listeners w"
proof -
  have "act_ok (\<lambda>v. listeners v = listeners w) (\<lambda>_. True) (\<lambda>_. True) (loop ops)"
    unfolding loop_def requestAnimationFrame_def tick_def
    by (rule keep_rules keep_call_model | simp add: same_fields)+
  then show ?thesis unfolding act_ok_def by blast
qed

lemma loop_frame_requests [simp]:
  "frame_requests (fst (loop ops w)) = Suc (frame_requests w)"
  by (simp add: loop_def proj requestAnimationFrame_def tick_def)

lemma loop_calls_paused: "\<not> playing w \<Longrightarrow> calls (snd (loop ops w)) = []"
  by (simp add: loop_def proj requestAnimationFrame_def tick_def calls_append)

lemma start_listeners:
  "listeners (fst (start ops mode hash w)) =
     listeners w @ [On_keydown, On_keyup, On_keypress]
     @ (if state (snd (model_init ops mode hash (model w)))
           = OFFLINE (states (snd (model_init ops mode hash (model w))))
        then [On_blur] else [])
     @ [On_notification open_room, On_notification playing_online,
        On_notification disconnected, On_notification collision]"
  by (simp add: start_def handleModelEvents_def addEventListener_def tick_def proj)

lemma start_frame_requests:
  "frame_requests (fst (start ops mode hash w)) = Suc (frame_requests w)"
  by (simp add: start_def handleModelEvents_def addEventListener_def tick_def proj)

lemma start_kept: "kept w (fst (start ops mode hash w))"
proof -
  have "act_ok (kept w) (\<lambda>_. True) (\<lambda>_. True) (start ops mode hash)"
    unfolding start_def handleModelEvents_def addEventListener_def tick_def
    by (rule keep_rules keep_kept_call_model keep_kept_loop | simp add: kept_def)+
  then show ?thesis unfolding act_ok_def by (simp add: kept_def)
qed

lemma start_calls:
  assumes "\<not> playing w"
    and "registered (On_notification playing_online) w = 0"
    and "registered (On_notification disconnected) w = 0"
  shows "calls (snd (start ops mode hash w)) = [Init mode hash]"
  using assms
  by (simp add: start_def handleModelEvents_def addEventListener_def tick_def proj
      calls_append loop_calls_paused call_model_playing_unheard)


lemma init_world:
  "listeners (fst (init ops h w)) =
     listeners w @ On_resize #
     (if h \<noteq> [] \<and> h \<noteq> ''#''
      then [On_keydown, On_keyup, On_keypress]
        @ (if state (snd (model_init ops (Some ''online'') (Some (drop 1 h))
                 (snd (model_init ops None None (model w)))))
              = OFFLINE (states (snd (model_init ops (Some ''online'') (Some (drop 1 h))
                 (snd (model_init ops None None (model w))))))
           then [On_blur] else [])
        @ [On_notification open_room, On_notification playing_online,
           On_notification disconnected, On_notification collision]
      else (case menu w of None \<Rightarrow> [] | Some mn \<Rightarrow> if 0 < buttons mn then [On_click] else []))"
  "frame_requests (fst (init ops h w)) =
     (if h \<noteq> [] \<and> h \<noteq> ''#'' then Suc (frame_requests w) else frame_requests w)"
  by (simp_all add: init_def addEventListener_def resizeCanvas_def set_hidden_def Let_def proj
      start_listeners start_frame_requests split: option.splits)

lemma init_menu:
  "menu (fst (init ops h w)) = map_option (\<lambda>mn. mn\<lparr>hidden := (h \<noteq> [] \<and> h \<noteq> ''#'')\<rparr>) (menu w)"
proof -
  have "menu (fst (start ops mode hash v)) = menu v" for mode hash and v :: "('a, 'b) world"
    using start_kept [of v ops mode hash] by (simp add: kept_def)
  then show ?thesis
    by (simp add: init_def addEventListener_def resizeCanvas_def set_hidden_def Let_def proj
        option.map_ident split: option.splits)
qed

lemma init_calls:
  assumes "listeners w = []"
  shows "calls (snd (init ops h w)) =
     Init None None #
     (if h \<noteq> [] \<and> h \<noteq> ''#'' then [Init (Some ''online'') (Some (drop 1 h))] else [])"
  using assms
  by (simp add: init_def addEventListener_def resizeCanvas_def set_hidden_def Let_def proj
      calls_append start_calls registered_def)

text \<open>
  C2. When \<^verbatim>\<open>view.init()\<close> runs on a page where nothing is registered yet and no
  frame is requested, a game is started if and only if \<^verbatim>\<open>window.location.hash\<close> is
  neither empty nor \<^verbatim>\<open>#\<close>. Then the menu, if the page has one, is hidden, and after
  the plain \<^verbatim>\<open>model.init()\<close> the model is initialised once more, in mode \<^verbatim>\<open>online\<close>
  with the hash less its first character as the room: for the hash \<^verbatim>\<open>#frag\<close>, the
  room \<^verbatim>\<open>frag\<close>. Otherwise the only call is the plain \<^verbatim>\<open>model.init()\<close>, no listener
  of a game is registered, no frame is requested, and the menu, if the page has one,
  is shown.
\<close>

theorem init_starts_guest_session:
  assumes "listeners w = []" and "frame_requests w = 0"
  shows "(session (fst (init ops h w)) \<longleftrightarrow> h \<noteq> [] \<and> h \<noteq> ''#'')
       \<and> calls (snd (init ops h w)) =
           Init None None #
           (if h \<noteq> [] \<and> h \<noteq> ''#'' then [Init (Some ''online'') (Some (drop 1 h))] else [])
       \<and> calls (snd (init ops (CHR ''#'' # frag) w)) =
           Init None None # (if frag \<noteq> [] then [Init (Some ''online'') (Some frag)] else [])
       \<and> menu (fst (init ops h w))
           = map_option (\<lambda>mn. mn\<lparr>hidden := (h \<noteq> [] \<and> h \<noteq> ''#'')\<rparr>) (menu w)
       \<and> (h = [] \<or> h = ''#'' \<longrightarrow>
            frame_requests (fst (init ops h w)) = 0
            \<and> set (listeners (fst (init ops h w))) \<subseteq> {On_resize, On_click})"
proof -
  have "session (fst (init ops h w)) \<longleftrightarrow> h \<noteq> [] \<and> h \<noteq> ''#''"
    using assms by (simp add: session_def registered_def init_world)
  moreover have "h = [] \<or> h = ''#'' \<longrightarrow>
      frame_requests (fst (init ops h w)) = 0
      \<and> set (listeners (fst (init ops h w))) \<subseteq> {On_resize, On_click}"
    using assms by (auto simp: init_world split: option.splits)
  moreover have "calls (snd (init ops (CHR ''#'' # frag) w)) =
      Init None None # (if frag \<noteq> [] then [Init (Some ''online'') (Some frag)] else [])"
    using assms by (simp add: init_calls)
  ultimately show ?thesis
    using assms by (simp add: init_calls init_menu)
qed

theorem init_starts_guest_session_witness:
  "listeners (page (court 0 []) 798 600) = []
   \<and> frame_requests (page (court 0 []) 798 600) = 0
   \<and> session (fst (init toy_model ''#abc'' (page (court 0 []) 798 600)))
   \<and> calls (snd (init toy_model ''#abc'' (page (court 0 []) 798 600)))
       = [Init None None, Init (Some ''online'') (Some ''abc'')]
   \<and> menu (fst (init toy_model ''#abc'' (page (court 0 []) 798 600)))
       = Some \<lparr>hidden = True, buttons = 3\<rparr>
   \<and> \<not> session (fst (init toy_model [] (page (court 0 []) 798 600)))
   \<and> calls (snd (init toy_model [] (page (court 0 []) 798 600))) = [Init None None]
   \<and> menu (fst (init toy_model [] (page (court 0 []) 798 600)))
       = Some \<lparr>hidden = False, buttons = 3\<rparr>"
  using init_starts_guest_session [of "page (court 0 []) 798 600" toy_model "''#abc''" "''abc''"]
    init_starts_guest_session [of "page (court 0 []) 798 600" toy_model "[]" "[]"]
  by (simp add: page_def)

subsection \<open>Publishing the room\<close>

text \<open>\<^verbatim>\<open>start()\<close> calls \<^verbatim>\<open>model.init()\<close> first, line 61, in the world it is called in.\<close>

lemma start_begins_with_init:
  "take (length (snd (call_model ops (Init mode hash) w))) (snd (start ops mode hash w))
     = snd (call_model ops (Init mode hash) w)"
  by (simp add: start_def snd_seq)

text \<open>
  C8, as amended. An \<^verbatim>\<open>open_room\<close> notification makes the view assign \<^verbatim>\<open>model.roomId\<close> to
  \<^verbatim>\<open>window.location.hash\<close> once for every \<^verbatim>\<open>open_room\<close> listener that is registered when
  the notification is dispatched, and do nothing else: when the model dispatches it on
  its own, and when it dispatches it during a call by the view, the model then being
  \<open>m\<close>. \<^verbatim>\<open>start()\<close> registers one such listener, in \<^verbatim>\<open>handleModelEvents()\<close> on line 94,
  after its call of \<^verbatim>\<open>model.init()\<close> on line 61, which runs with the listeners registered
  before. So the fragment is set once in a view that has started one game; an
  \<^verbatim>\<open>open_room\<close> notification dispatched before any game is started, or during
  \<^verbatim>\<open>model.init()\<close> in the first \<^verbatim>\<open>start()\<close>, reaches no listener and sets nothing.
\<close>

theorem open_room_sets_hash:
  "step ops (Notification open_room) w
     = (w, Emitted open_room
           # replicate (registered (On_notification open_room) w) (Set_hash (roomId (model w))))
   \<and> deliver (open_room, m) w
     = (w\<lparr>model := m\<rparr>,
        Emitted open_room
          # replicate (registered (On_notification open_room) w) (Set_hash (roomId m)))
   \<and> registered (On_notification open_room) (fst (start ops mode hash w))
     = Suc (registered (On_notification open_room) w)
   \<and> take (length (snd (call_model ops (Init mode hash) w))) (snd (start ops mode hash w))
     = snd (call_model ops (Init mode hash) w)"
proof -
  have dispatch: "dispatchEvent open_room v
      = (v, Emitted open_room
            # replicate (registered (On_notification open_room) v) (Set_hash (roomId (model v))))"
    for v :: "('a, 'b) world"
    using dispatchEvent_world [of open_room v] dispatchEvent_log [of open_room v]
    by (simp add: prod_eq_iff)
  have "registered (On_notification open_room) (w\<lparr>model := m\<rparr>)
      = registered (On_notification open_room) w"
    by (simp add: registered_def)
  then have "deliver (open_room, m) w
     = (w\<lparr>model := m\<rparr>,
        Emitted open_room
          # replicate (registered (On_notification open_room) w) (Set_hash (roomId m)))"
    using dispatch [of "w\<lparr>model := m\<rparr>"] by (simp add: deliver_def seq_def assign_def)
  moreover have "registered (On_notification open_room) (fst (start ops mode hash w))
     = Suc (registered (On_notification open_room) w)"
    by (simp add: registered_def start_listeners)
  ultimately show ?thesis
    using dispatch [of w] start_begins_with_init [of ops mode hash w] by simp
qed

text \<open>
  The connecting guest has one listener, and the fragment becomes the room \<^verbatim>\<open>abc\<close>; the
  page with the open menu has none, and nothing is assigned.
\<close>

theorem open_room_sets_hash_witness:
  "registered (On_notification open_room) guest = 1
   \<and> step toy_model (Notification open_room) guest
       = (guest, [Emitted open_room, Set_hash ''abc''])
   \<and> registered (On_notification open_room) lobby = 0
   \<and> step toy_model (Notification open_room) lobby = (lobby, [Emitted open_room])"
  using open_room_sets_hash [of toy_model guest "court 0 []" None None]
    open_room_sets_hash [of toy_model lobby "court 0 []" None None]
  by (simp add: guest_eval lobby_eval registered_def sample_defs)

text \<open>
  C8 as stated fails for a host whose model dispatches \<^verbatim>\<open>open_room\<close> inside
  \<^verbatim>\<open>model.init()\<close>: after a click on the menu button \<^verbatim>\<open>online\<close>, the notification is
  dispatched, the model holds the room \<^verbatim>\<open>r1\<close>, the listener is registered only
  afterwards, and the fragment is never assigned.
\<close>

theorem open_room_unheard_counterexample:
  "registered (On_notification open_room) lobby = 0
   \<and> take 3 (snd (step toy_model (Click (Some ''online'')) lobby))
       = [Blur_button, Call (Init (Some ''online'') None), Emitted open_room]
   \<and> filter is_set_hash (snd (step toy_model (Click (Some ''online'')) lobby)) = []
   \<and> roomId (model (fst (step toy_model (Click (Some ''online'')) lobby))) = ''r1''
   \<and> registered (On_notification open_room) (fst (step toy_model (Click (Some ''online'')) lobby)) = 1"
  by (simp add: lobby_eval registered_def act_defs view_defs sample_defs)

subsection \<open>The calls that change the model\<close>

lemma forwarded_handle:
  "key_event ev \<Longrightarrow> list_all forwarded (calls (snd (handle ops ev l w)))"
  by (cases l; cases ev; simp add: on_keypress_def proj)

lemma forwarded_block:
  assumes "\<And>f v. f \<in> set fs \<Longrightarrow> list_all forwarded (calls (snd (f v)))"
  shows "list_all forwarded (calls (snd (block fs w)))"
  using assms by (induction fs arbitrary: w) (simp_all add: proj calls_append)

lemma forwarded_step:
  assumes "key_event ev"
  shows "list_all forwarded (calls (snd (step ops ev w)))"
proof -
  have "list_all forwarded (calls (snd (fire ops ev w)))"
    unfolding fire_def reading_def
    by (rule forwarded_block) (auto simp: forwarded_handle [OF assms])
  then show ?thesis
    using assms by (cases ev) simp_all
qed

text \<open>
  C6, as amended. The view assigns to no property of the model object: over every
  sequence of frames, input events and notifications, and in \<^verbatim>\<open>init()\<close>, the model at
  the end is the model at the beginning with the calls that the view made replayed on
  it, in order. So all that the view changes in the model, the model's own methods
  change, called by the view. These are \<^verbatim>\<open>keyDown\<close>, \<^verbatim>\<open>keyUp\<close> and \<^verbatim>\<open>playerStarted\<close>, the
  only calls of a keyboard event, and besides them \<^verbatim>\<open>init\<close> when the view is
  initialised and when a game starts, and \<^verbatim>\<open>updateBall\<close>, \<^verbatim>\<open>updateBats\<close>,
  \<^verbatim>\<open>detectCollision\<close> and \<^verbatim>\<open>detectPoint\<close> in a frame of a playing game (C1).
\<close>

theorem view_assigns_no_model_property:
  assumes "list_all view_event evs"
  shows "model (fst (run ops evs w)) = replay ops (calls (snd (run ops evs w))) (model w)
       \<and> model (fst (init ops h w)) = replay ops (calls (snd (init ops h w))) (model w)
       \<and> (key_event ev \<longrightarrow> list_all forwarded (calls (snd (step ops ev w))))"
  using replays_run [OF assms, of ops] replays_init [of ops h] forwarded_step [of ev ops w]
  unfolding replays_def by blast

text \<open>
  A key goes down, a frame runs, the key goes up: the bat has moved by the key and the
  ball by the frame, as the seven calls replayed on the model move them.
\<close>

theorem view_assigns_no_model_property_witness:
  "list_all view_event [Keydown 38, Animation_frame, Keyup 38 :: (nat, unit) event]
   \<and> key_event (Keydown 38 :: (nat, unit) event)
   \<and> calls (snd (run toy_model [Keydown 38, Animation_frame, Keyup 38] game_on))
       = [KeyDown 38, UpdateBall 16, UpdateBats 16,
          DetectCollision \<lparr>bat_x = 20, bat_y = 300, bat_w = 10, bat_h = 100\<rparr>,
          DetectCollision \<lparr>bat_x = 780, bat_y = 290, bat_w = 10, bat_h = 100\<rparr>,
          DetectPoint, KeyUp 38]
   \<and> model (fst (run toy_model [Keydown 38, Animation_frame, Keyup 38] game_on))
       = (court 0 [])\<lparr>ball := \<lparr>ball_x = 416, ball_y = 300, ball_r = 10\<rparr>,
                       rightBat := \<lparr>bat_x = 780, bat_y = 290, bat_w = 10, bat_h = 100\<rparr>\<rparr>
   \<and> replay toy_model (calls (snd (run toy_model [Keydown 38, Animation_frame, Keyup 38] game_on)))
         (model game_on)
       = (court 0 [])\<lparr>ball := \<lparr>ball_x = 416, ball_y = 300, ball_r = 10\<rparr>,
                       rightBat := \<lparr>bat_x = 780, bat_y = 290, bat_w = 10, bat_h = 100\<rparr>\<rparr>
   \<and> calls (snd (step toy_model (Keydown 38) game_on)) = [KeyDown 38]
   \<and> list_all forwarded (calls (snd (step toy_model (Keydown 38) game_on)))"
  using view_assigns_no_model_property
    [of "[Keydown 38, Animation_frame, Keyup 38]" toy_model game_on "[]" "Keydown 38"]
  by (simp add: game_on_eval act_defs view_defs sample_defs)

text \<open>
  C6 as stated fails in a frame of the playing offline game: the view makes none of the
  calls \<^verbatim>\<open>keyDown\<close>, \<^verbatim>\<open>keyUp\<close> and \<^verbatim>\<open>playerStarted\<close>, and the ball of the model has
  moved from 400 to 416, by the call of \<^verbatim>\<open>updateBall\<close>.
\<close>

theorem frame_changes_model_counterexample:
  "calls (snd (step toy_model Animation_frame game_on))
     = [UpdateBall 16, UpdateBats 16,
        DetectCollision \<lparr>bat_x = 20, bat_y = 300, bat_w = 10, bat_h = 100\<rparr>,
        DetectCollision \<lparr>bat_x = 780, bat_y = 300, bat_w = 10, bat_h = 100\<rparr>,
        DetectPoint]
   \<and> filter forwarded (calls (snd (step toy_model Animation_frame game_on))) = []
   \<and> ball_x (ball (model game_on)) = 400
   \<and> ball_x (ball (model (fst (step toy_model Animation_frame game_on)))) = 416
   \<and> model (fst (step toy_model Animation_frame game_on)) \<noteq> model game_on"
  by (simp add: game_on_eval act_defs view_defs sample_defs)

subsection \<open>What the view reads of the model\<close>

lemma except_hash_append [simp]: "except_hash (a @ b) = except_hash a @ except_hash b"
  by (simp add: except_hash_def)

lemma except_hash_Nil [simp]: "except_hash [] = []"
  by (simp add: except_hash_def)

lemma calls_except_hash: "calls (except_hash l) = calls l"
  by (induction l) (simp_all add: except_hash_def split: action.splits)

lemma rendering_except_hash: "rendering (except_hash l) = rendering l"
  by (induction l) (simp_all add: except_hash_def split: action.splits)

lemma rel_skip: "rel_ok R keep skip skip"
  by (simp add: rel_ok_def skip_def)

lemma rel_seq: "rel_ok R keep f1 f2 \<Longrightarrow> rel_ok R keep g1 g2 \<Longrightarrow> rel_ok R keep (seq f1 g1) (seq f2 g2)"
  by (simp add: rel_ok_def seq_apply)

lemma rel_block_Nil: "rel_ok R keep (block []) (block [])"
  by (simp add: rel_skip)

lemma rel_block_Cons:
  "rel_ok R keep f1 f2 \<Longrightarrow> rel_ok R keep (block fs1) (block fs2)
     \<Longrightarrow> rel_ok R keep (block (f1 # fs1)) (block (f2 # fs2))"
  by (simp add: rel_seq)

lemma rel_block:
  "list_all2 (rel_ok R keep) fs1 fs2 \<Longrightarrow> rel_ok R keep (block fs1) (block fs2)"
  by (induction fs1 fs2 rule: list_all2_induct) (simp_all add: rel_skip rel_seq)

lemma rel_block_map:
  "(\<And>x. rel_ok R keep (h1 x) (h2 x)) \<Longrightarrow> rel_ok R keep (block (map h1 xs)) (block (map h2 xs))"
  by (rule rel_block) (simp add: list_all2_map1 list_all2_map2 list_all2_same)

lemma rel_block_replicate:
  "rel_ok R keep f1 f2 \<Longrightarrow> rel_ok R keep (block (replicate n f1)) (block (replicate n f2))"
  by (induction n) (simp_all add: rel_skip rel_seq)

lemma rel_cond:
  "(\<And>w1 w2. alike R w1 w2 \<Longrightarrow> b1 w1 = b2 w2) \<Longrightarrow> rel_ok R keep f1 f2
     \<Longrightarrow> rel_ok R keep (cond b1 f1) (cond b2 f2)"
  by (simp add: rel_ok_def cond_def)

lemma rel_ifelse:
  "(\<And>w1 w2. alike R w1 w2 \<Longrightarrow> b1 w1 = b2 w2) \<Longrightarrow> rel_ok R keep f1 f2 \<Longrightarrow> rel_ok R keep g1 g2
     \<Longrightarrow> rel_ok R keep (ifelse b1 f1 g1) (ifelse b2 f2 g2)"
  by (simp add: rel_ok_def ifelse_def)

lemma rel_reading:
  "(\<And>w1 w2. alike R w1 w2 \<Longrightarrow> g1 w1 = g2 w2) \<Longrightarrow> (\<And>x. rel_ok R keep (f1 x) (f2 x))
     \<Longrightarrow> rel_ok R keep (reading g1 f1) (reading g2 f2)"
  by (simp add: rel_ok_def reading_def)

lemma rel_does:
  "(\<And>w1 w2. alike R w1 w2 \<Longrightarrow> filter keep (l1 w1) = filter keep (l2 w2))
     \<Longrightarrow> rel_ok R keep (does l1) (does l2)"
  by (simp add: rel_ok_def does_def)

lemma rel_assign:
  "(\<And>w1 w2. alike R w1 w2 \<Longrightarrow> alike R (h1 w1) (h2 w2)) \<Longrightarrow> rel_ok R keep (assign h1) (assign h2)"
  by (simp add: rel_ok_def assign_def)

lemmas rel_rules =
  rel_skip rel_seq rel_block_Nil rel_block_Cons rel_block_map rel_block_replicate
  rel_cond rel_ifelse rel_reading rel_does rel_assign

lemma alike_fields:
  assumes "alike R w1 w2"
  shows "sound w2 = sound w1" "started w2 = started w1" "playing w2 = playing w1"
    "prevTime w2 = prevTime w1" "canvas_width w2 = canvas_width w1"
    "canvas_height w2 = canvas_height w1" "innerWidth w2 = innerWidth w1"
    "innerHeight w2 = innerHeight w1" "menu w2 = menu w1" "listeners w2 = listeners w1"
    "frame_requests w2 = frame_requests w1" "clock w2 = clock w1" "ticks w2 = ticks w1"
    "R (model w1) (model w2)"
  using assms unfolding alike_def
  by (metis world.select_convs world.surjective world.update_convs(1))+

lemma alikeI:
  assumes "R (model w1) (model w2)"
    and "sound w2 = sound w1" "started w2 = started w1" "playing w2 = playing w1"
    "prevTime w2 = prevTime w1" "canvas_width w2 = canvas_width w1"
    "canvas_height w2 = canvas_height w1" "innerWidth w2 = innerWidth w1"
    "innerHeight w2 = innerHeight w1" "menu w2 = menu w1" "listeners w2 = listeners w1"
    "frame_requests w2 = frame_requests w1" "clock w2 = clock w1" "ticks w2 = ticks w1"
  shows "alike R w1 w2"
  using assms unfolding alike_def by (cases w1; cases w2) simp

lemma alike_view:
  assumes "within_view R" and "alike R w1 w2"
  shows "state (model w2) = state (model w1)" "states (model w2) = states (model w1)"
    "ball (model w2) = ball (model w1)" "leftBat (model w2) = leftBat (model w1)"
    "rightBat (model w2) = rightBat (model w1)" "points (model w2) = points (model w1)"
    "abstractWidth (model w2) = abstractWidth (model w1)"
    "abstractHeight (model w2) = abstractHeight (model w1)"
  using assms alike_fields(14) [OF assms(2)]
  unfolding within_view_def same_view_def by metis+

lemma alike_D:
  "alike R w1 w2 \<Longrightarrow>
     R (model w1) (model w2) \<and> sound w2 = sound w1 \<and> started w2 = started w1
     \<and> playing w2 = playing w1 \<and> prevTime w2 = prevTime w1
     \<and> canvas_width w2 = canvas_width w1 \<and> canvas_height w2 = canvas_height w1
     \<and> innerWidth w2 = innerWidth w1 \<and> innerHeight w2 = innerHeight w1
     \<and> menu w2 = menu w1 \<and> listeners w2 = listeners w1
     \<and> frame_requests w2 = frame_requests w1 \<and> clock w2 = clock w1 \<and> ticks w2 = ticks w1"
  by (simp add: alike_fields)

lemma rel_on_notification:
  assumes "hash_ok R keep"
  shows "rel_ok R keep (on_notification n) (on_notification n)"
proof (cases n)
  case open_room
  have "filter keep [Set_hash (roomId (model w1))] = filter keep [Set_hash (roomId (model w2))]"
    if "alike R w1 w2" for w1 w2 :: "('a, 'b) world"
    using assms alike_fields(14) [OF that] unfolding hash_ok_def by auto
  then show ?thesis unfolding open_room on_notification.simps by (rule rel_does)
next
  case collision
  have "filter keep [Play (sound w1)] = filter keep [Play (sound w2)]"
    if "alike R w1 w2" for w1 w2 :: "('a, 'b) world"
    using alike_fields(1) [OF that] by simp
  then show ?thesis unfolding collision on_notification.simps by (rule rel_does)
next
  case playing_online
  show ?thesis unfolding playing_online on_notification.simps
    by (rule rel_assign) (auto dest!: alike_D intro!: alikeI)
next
  case disconnected
  show ?thesis unfolding disconnected on_notification.simps
    by (rule rel_assign) (auto dest!: alike_D intro!: alikeI)
qed

lemma rel_dispatchEvent:
  assumes "hash_ok R keep"
  shows "rel_ok R keep (dispatchEvent n) (dispatchEvent n)"
  unfolding dispatchEvent_def
  by (rule rel_rules rel_on_notification [OF assms]
      | (auto dest!: alike_D intro!: alikeI)[1])+

lemma rel_deliver:
  assumes "hash_ok R keep" and "fst a = fst b" and "R (snd a) (snd b)"
  shows "rel_ok R keep (deliver a) (deliver b)"
  unfolding deliver_def assms(2)
  by (rule rel_rules rel_dispatchEvent [OF assms(1)]
      | (auto dest!: alike_D intro!: alikeI simp: assms)[1])+

lemma rel_deliveries:
  assumes "hash_ok R keep"
    and "list_all2 (\<lambda>a b. fst a = fst b \<and> R (snd a) (snd b)) ns1 ns2"
  shows "rel_ok R keep (block (map deliver ns1)) (block (map deliver ns2))"
  using assms(2)
  by (induction ns1 ns2 rule: list_all2_induct)
     (simp_all add: rel_skip rel_seq rel_deliver [OF assms(1)])

lemma rel_call_model:
  assumes "compatible R ops1 ops2" and "hash_ok R keep"
  shows "rel_ok R keep (call_model ops1 c) (call_model ops2 c)"
  unfolding rel_ok_def
proof (intro allI impI)
  fix w1 w2 :: "('a, 'b) world"
  assume a: "alike R w1 w2"
  obtain ns1 m1 where r1: "apply_call ops1 c (model w1) = (ns1, m1)" by force
  obtain ns2 m2 where r2: "apply_call ops2 c (model w2) = (ns2, m2)" by force
  from assms(1) alike_fields(14) [OF a]
  have "rel_reply R (apply_call ops1 c (model w1)) (apply_call ops2 c (model w2))"
    unfolding compatible_def by blast
  then have ns: "list_all2 (\<lambda>a b. fst a = fst b \<and> R (snd a) (snd b)) ns1 ns2"
    and m: "R m1 m2"
    by (simp_all add: rel_reply_def r1 r2)
  have "rel_ok R keep
      (block [does (\<lambda>_. [Call c]), block (map deliver ns1), assign (\<lambda>w. w\<lparr>model := m1\<rparr>)])
      (block [does (\<lambda>_. [Call c]), block (map deliver ns2), assign (\<lambda>w. w\<lparr>model := m2\<rparr>)])"
    by (rule rel_rules rel_deliveries [OF assms(2) ns]
        | (auto dest!: alike_D intro!: alikeI simp: m)[1])+
  with a show "alike R (fst (call_model ops1 c w1)) (fst (call_model ops2 c w2))
      \<and> filter keep (snd (call_model ops1 c w1)) = filter keep (snd (call_model ops2 c w2))"
    unfolding rel_ok_def call_model_def reading_def r1 r2 by simp
qed

lemma alike_view_D:
  assumes "within_view R" and "alike R w1 w2"
  shows "R (model w1) (model w2) \<and> sound w2 = sound w1 \<and> started w2 = started w1
     \<and> playing w2 = playing w1 \<and> prevTime w2 = prevTime w1
     \<and> canvas_width w2 = canvas_width w1 \<and> canvas_height w2 = canvas_height w1
     \<and> innerWidth w2 = innerWidth w1 \<and> innerHeight w2 = innerHeight w1
     \<and> menu w2 = menu w1 \<and> listeners w2 = listeners w1
     \<and> frame_requests w2 = frame_requests w1 \<and> clock w2 = clock w1 \<and> ticks w2 = ticks w1
     \<and> state (model w2) = state (model w1) \<and> states (model w2) = states (model w1)
     \<and> ball (model w2) = ball (model w1) \<and> leftBat (model w2) = leftBat (model w1)
     \<and> rightBat (model w2) = rightBat (model w1) \<and> points (model w2) = points (model w1)
     \<and> abstractWidth (model w2) = abstractWidth (model w1)
     \<and> abstractHeight (model w2) = abstractHeight (model w1)"
  using alike_D [OF assms(2)] alike_view [OF assms] by simp

lemma alikeE:
  assumes "within_view R" and "alike R w1 w2"
    and "\<lbrakk>R (model w1) (model w2); sound w2 = sound w1; started w2 = started w1;
      playing w2 = playing w1; prevTime w2 = prevTime w1;
      canvas_width w2 = canvas_width w1; canvas_height w2 = canvas_height w1;
      innerWidth w2 = innerWidth w1; innerHeight w2 = innerHeight w1;
      menu w2 = menu w1; listeners w2 = listeners w1;
      frame_requests w2 = frame_requests w1; clock w2 = clock w1; ticks w2 = ticks w1;
      state (model w2) = state (model w1); states (model w2) = states (model w1);
      ball (model w2) = ball (model w1); leftBat (model w2) = leftBat (model w1);
      rightBat (model w2) = rightBat (model w1); points (model w2) = points (model w1);
      abstractWidth (model w2) = abstractWidth (model w1);
      abstractHeight (model w2) = abstractHeight (model w1)\<rbrakk> \<Longrightarrow> P"
  shows P
  using alike_view_D [OF assms(1,2)] assms(3) by blast

lemma rel_loop:
  assumes "within_view R" and "compatible R ops1 ops2" and "hash_ok R keep"
  shows "rel_ok R keep (loop ops1) (loop ops2)"
  unfolding loop_def requestAnimationFrame_def tick_def
  by (rule rel_rules rel_call_model [OF assms(2,3)]
      | (erule alikeE [OF assms(1)]; (rule alikeI)?;
          simp add: new_Date_def paint_def drawLines_def drawPoints_def
            drawBat_def drawBall_def drawPausedInfo_def getInfoText_def)[1])+

lemma rel_start:
  assumes "within_view R" and "compatible R ops1 ops2" and "hash_ok R keep"
  shows "rel_ok R keep (start ops1 mode hash) (start ops2 mode hash)"
  unfolding start_def handleModelEvents_def addEventListener_def tick_def
  by (rule rel_rules rel_call_model [OF assms(2,3)] rel_loop [OF assms]
      | (erule alikeE [OF assms(1)]; (rule alikeI)?; simp add: new_Date_def)[1])+

lemma rel_resizeCanvas:
  assumes "within_view R"
  shows "rel_ok R keep resizeCanvas resizeCanvas"
  unfolding resizeCanvas_def
  by (rule rel_rules
      | (erule alikeE [OF assms(1)]; simp add: Let_def; intro conjI impI; rule alikeI;
          simp)[1])+

lemma rel_init:
  assumes "within_view R" and "compatible R ops1 ops2" and "hash_ok R keep"
  shows "rel_ok R keep (init ops1 h) (init ops2 h)"
  unfolding init_def addEventListener_def set_hidden_def
  by (rule rel_rules rel_call_model [OF assms(2,3)] rel_start [OF assms]
        rel_resizeCanvas [OF assms(1)]
      | (erule alikeE [OF assms(1)]; (rule alikeI)?; simp)[1])+

lemma rel_on_keypress:
  assumes "within_view R" and "compatible R ops1 ops2" and "hash_ok R keep"
  shows "rel_ok R keep (on_keypress ops1 k) (on_keypress ops2 k)"
  unfolding on_keypress_def
  by (rule rel_rules rel_call_model [OF assms(2,3)]
      | (erule alikeE [OF assms(1)]; (rule alikeI)?; simp)[1])+

lemma rel_on_click:
  assumes "within_view R" and "compatible R ops1 ops2" and "hash_ok R keep"
  shows "rel_ok R keep (on_click ops1 b) (on_click ops2 b)"
  unfolding on_click_def set_hidden_def
  by (rule rel_rules rel_start [OF assms]
      | (erule alikeE [OF assms(1)]; (rule alikeI)?; simp)[1])+

lemma rel_on_blur:
  assumes "within_view R"
  shows "rel_ok R keep on_blur on_blur"
  unfolding on_blur_def
  by (rule rel_rules | (erule alikeE [OF assms(1)]; (rule alikeI)?; simp)[1])+

lemma rel_handle:
  assumes "within_view R" and "compatible R ops1 ops2" and "hash_ok R keep"
  shows "rel_ok R keep (handle ops1 ev l) (handle ops2 ev l)"
  by (cases l; cases ev)
     (simp_all add: rel_skip rel_on_keypress [OF assms] rel_on_click [OF assms]
        rel_on_blur [OF assms(1)] rel_resizeCanvas [OF assms(1)] rel_call_model [OF assms(2,3)])

lemma rel_fire:
  assumes "within_view R" and "compatible R ops1 ops2" and "hash_ok R keep"
  shows "rel_ok R keep (fire ops1 ev) (fire ops2 ev)"
  unfolding fire_def
  by (rule rel_rules rel_handle [OF assms]
      | (erule alikeE [OF assms(1)]; simp)[1])+

lemma rel_step_same:
  assumes "within_view R" and "compatible R ops1 ops2" and "hash_ok R keep"
    and "view_event ev"
  shows "rel_ok R keep (step ops1 ev) (step ops2 ev)"
proof (cases ev)
  case (Model_changed m)
  with assms(4) show ?thesis by simp
next
  case (Resize a b)
  show ?thesis
    unfolding Resize step.simps
    by (rule rel_rules rel_fire [OF assms(1,2,3)]
        | (erule alikeE [OF assms(1)]; (rule alikeI)?; simp)[1])+
next
  case Animation_frame
  show ?thesis
    unfolding Animation_frame step.simps
    by (rule rel_rules rel_loop [OF assms(1,2,3)]
        | (erule alikeE [OF assms(1)]; (rule alikeI)?; simp)[1])+
next
  case (Notification n)
  then show ?thesis by (simp add: rel_dispatchEvent [OF assms(3)])
qed (simp_all add: rel_fire [OF assms(1,2,3)])

lemma rel_step:
  assumes "within_view R" and "compatible R ops1 ops2" and "hash_ok R keep"
    and "rel_event R ev1 ev2"
  shows "rel_ok R keep (step ops1 ev1) (step ops2 ev2)"
proof (cases "view_event ev1")
  case True
  with assms(4) have "ev2 = ev1"
    by (cases ev1; cases ev2) (simp_all add: rel_event_def)
  with True show ?thesis by (simp add: rel_step_same [OF assms(1,2,3)])
next
  case False
  then obtain m1 where ev1: "ev1 = Model_changed m1" by (cases ev1) simp_all
  with assms(4) obtain m2 where ev2: "ev2 = Model_changed m2" and m: "R m1 m2"
    by (cases ev2) (simp_all add: rel_event_def)
  have "rel_ok R keep (assign (\<lambda>w. w\<lparr>model := m1\<rparr>)) (assign (\<lambda>w. w\<lparr>model := m2\<rparr>))"
    by (rule rel_assign) (erule alikeE [OF assms(1)]; rule alikeI; simp add: m)
  then show ?thesis by (simp add: ev1 ev2)
qed

lemma rel_run:
  assumes "within_view R" and "compatible R ops1 ops2" and "hash_ok R keep"
    and "list_all2 (rel_event R) evs1 evs2"
  shows "rel_ok R keep (run ops1 evs1) (run ops2 evs2)"
  using assms(4)
  by (induction evs1 evs2 rule: list_all2_induct)
     (simp_all add: rel_skip rel_seq rel_step [OF assms(1,2,3)])

text \<open>
  C7, as amended. The view reads the model fields \<^verbatim>\<open>state\<close>, \<^verbatim>\<open>states\<close>, \<^verbatim>\<open>ball\<close>,
  \<^verbatim>\<open>leftBat\<close>, \<^verbatim>\<open>rightBat\<close>, \<^verbatim>\<open>points\<close>, \<^verbatim>\<open>abstractWidth\<close>, \<^verbatim>\<open>abstractHeight\<close> and,
  in the \<^verbatim>\<open>open_room\<close> listener, \<^verbatim>\<open>roomId\<close>. Two runs of the view, over the same
  events and in \<^verbatim>\<open>init()\<close>, on models that agree on the first eight fields whenever
  the view meets them (they are related by \<open>R\<close>, which the methods of the model
  preserve) produce the same rendering and the same calls into the model; their logs
  differ at most in the value assigned to the URL fragment, and not at all when the
  related models agree on \<^verbatim>\<open>roomId\<close> too.
\<close>

theorem view_reads_visible_fields_and_roomId:
  assumes "within_view R" and "compatible R ops1 ops2"
    and "alike R w1 w2" and "list_all2 (rel_event R) evs1 evs2"
  shows "rendering (snd (run ops1 evs1 w1)) = rendering (snd (run ops2 evs2 w2))
       \<and> calls (snd (run ops1 evs1 w1)) = calls (snd (run ops2 evs2 w2))
       \<and> except_hash (snd (run ops1 evs1 w1)) = except_hash (snd (run ops2 evs2 w2))
       \<and> alike R (fst (run ops1 evs1 w1)) (fst (run ops2 evs2 w2))
       \<and> rendering (snd (init ops1 h w1)) = rendering (snd (init ops2 h w2))
       \<and> calls (snd (init ops1 h w1)) = calls (snd (init ops2 h w2))
       \<and> except_hash (snd (init ops1 h w1)) = except_hash (snd (init ops2 h w2))
       \<and> alike R (fst (init ops1 h w1)) (fst (init ops2 h w2))
       \<and> ((\<forall>m1 m2. R m1 m2 \<longrightarrow> roomId m1 = roomId m2) \<longrightarrow>
            snd (run ops1 evs1 w1) = snd (run ops2 evs2 w2)
            \<and> snd (init ops1 h w1) = snd (init ops2 h w2))"
proof -
  have same: "rendering a = rendering b \<and> calls a = calls b"
    if "except_hash a = except_hash b" for a b
    using that rendering_except_hash [of a] rendering_except_hash [of b]
      calls_except_hash [of a] calls_except_hash [of b] by simp
  have blind: "hash_ok R (\<lambda>a. \<not> is_set_hash a)"
    by (simp add: hash_ok_def)
  from rel_run [OF assms(1,2) blind assms(4)] assms(3)
  have r: "alike R (fst (run ops1 evs1 w1)) (fst (run ops2 evs2 w2))"
    "except_hash (snd (run ops1 evs1 w1)) = except_hash (snd (run ops2 evs2 w2))"
    unfolding rel_ok_def except_hash_def by blast+
  from rel_init [OF assms(1,2) blind, of h] assms(3)
  have i: "alike R (fst (init ops1 h w1)) (fst (init ops2 h w2))"
    "except_hash (snd (init ops1 h w1)) = except_hash (snd (init ops2 h w2))"
    unfolding rel_ok_def except_hash_def by blast+
  have "snd (run ops1 evs1 w1) = snd (run ops2 evs2 w2)
      \<and> snd (init ops1 h w1) = snd (init ops2 h w2)"
    if "\<forall>m1 m2. R m1 m2 \<longrightarrow> roomId m1 = roomId m2"
  proof -
    from that have all: "hash_ok R (\<lambda>_. True)" by (simp add: hash_ok_def)
    from rel_run [OF assms(1,2) all assms(4)] rel_init [OF assms(1,2) all, of h] assms(3)
    show ?thesis unfolding rel_ok_def by simp
  qed
  with r i same [OF r(2)] same [OF i(2)] show ?thesis by simp
qed

theorem view_reads_visible_fields_and_roomId_witness:
  "within_view (same_view :: nat model \<Rightarrow> nat model \<Rightarrow> bool)
   \<and> compatible same_view toy_model toy_model
   \<and> alike same_view guest (guest\<lparr>model := court 1 ''xyz''\<rparr>)
   \<and> list_all2 (rel_event same_view)
        [Notification open_room, Keydown 38, Animation_frame :: (nat, unit) event]
        [Notification open_room, Keydown 38, Animation_frame]
   \<and> rendering (snd (run toy_model [Notification open_room, Keydown 38, Animation_frame] guest))
       = rendering (snd (run toy_model [Notification open_room, Keydown 38, Animation_frame]
           (guest\<lparr>model := court 1 ''xyz''\<rparr>)))
   \<and> calls (snd (run toy_model [Notification open_room, Keydown 38, Animation_frame] guest))
       = calls (snd (run toy_model [Notification open_room, Keydown 38, Animation_frame]
           (guest\<lparr>model := court 1 ''xyz''\<rparr>)))"
proof -
  have 1: "within_view (same_view :: nat model \<Rightarrow> nat model \<Rightarrow> bool)"
    by (simp add: within_view_def)
  have 2: "compatible same_view toy_model toy_model"
    unfolding compatible_def
  proof (intro allI impI)
    fix c and m1 m2 :: "nat model"
    assume "same_view m1 m2"
    then show "rel_reply same_view (apply_call toy_model c m1) (apply_call toy_model c m2)"
      by (cases c)
         (simp_all add: rel_reply_def toy_model_def toy_init_def same_view_def
            split: option.splits)
  qed
  have 3: "alike same_view guest (guest\<lparr>model := court 1 ''xyz''\<rparr>)"
    by (simp add: alike_def same_view_def guest_eval court_def)
  have 4: "list_all2 (rel_event same_view)
      [Notification open_room, Keydown 38, Animation_frame :: (nat, unit) event]
      [Notification open_room, Keydown 38, Animation_frame]"
    by (simp add: rel_event_def)
  from view_reads_visible_fields_and_roomId [OF 1 2 3 4] 1 2 3 4 show ?thesis by blast
qed

text \<open>
  The guest of the sample page, in the room \<^verbatim>\<open>abc\<close>, and the same guest with a model
  that differs in \<^verbatim>\<open>roomId\<close> alone: the two models agree on the eight fields, and on
  an \<^verbatim>\<open>open_room\<close> notification the view assigns \<^verbatim>\<open>abc\<close> to the URL fragment in one
  run and \<^verbatim>\<open>xyz\<close> in the other.
\<close>

theorem view_reads_roomId_counterexample:
  "same_view (model guest) (court 1 ''xyz'')
   \<and> guest\<lparr>model := court 1 ''xyz''\<rparr> = guest\<lparr>model := (model guest)\<lparr>roomId := ''xyz''\<rparr>\<rparr>
   \<and> snd (step toy_model (Notification open_room) guest)
       = [Emitted open_room, Set_hash ''abc'']
   \<and> snd (step toy_model (Notification open_room) (guest\<lparr>model := court 1 ''xyz''\<rparr>))
       = [Emitted open_room, Set_hash ''xyz'']
   \<and> snd (step toy_model (Notification open_room) guest)
       \<noteq> snd (step toy_model (Notification open_room) (guest\<lparr>model := court 1 ''xyz''\<rparr>))"
  by (simp add: dispatchEvent_log registered_def guest_eval court_def same_view_def)

end
